theory Spec2Isabelle
  imports Main
begin

section \<open>Python values\<close>

text \<open>
  A Python \<open>str\<close> is modelled as a \<^typ>\<open>string\<close> holding its UTF-8 bytes, so the
  Cyrillic texts of the bot are byte lists and every ASCII character is itself.
\<close>

datatype error =
    KeyError | IndexError | AttributeError | TypeError | ValueError | ValidationError
  | IntegrityError | OperationalError | StopIteration | RuntimeError

text \<open>
  \<open>str.strip\<close> and \<open>str.title\<close> are methods of Python's \<open>str\<close>, driven by the Unicode
  character tables, and no code of this repository. A handler that calls them takes
  them as \<open>py\<close>: what the two methods return, for every string.
\<close>

record str_methods =
  strip :: "string \<Rightarrow> string"
  title :: "string \<Rightarrow> string"

text \<open>
  On a string of ASCII characters alone the two methods are the functions below:
  \<open>strip\<close> drops the white space at both ends, and \<open>title\<close> lowers a letter that
  follows a letter and raises any other. They are the methods at which the theorems are
  evaluated on ASCII input.
\<close>

definition ascii_space :: "char \<Rightarrow> bool" where
  "ascii_space c = (let n = (of_char c :: nat) in (9 \<le> n \<and> n \<le> 13) \<or> (28 \<le> n \<and> n \<le> 32))"

definition ascii_strip :: "string \<Rightarrow> string" where
  "ascii_strip s = rev (dropWhile ascii_space (rev (dropWhile ascii_space s)))"

definition ascii_upper :: "char \<Rightarrow> bool" where
  "ascii_upper c = (let n = (of_char c :: nat) in 65 \<le> n \<and> n \<le> 90)"

definition ascii_lower :: "char \<Rightarrow> bool" where
  "ascii_lower c = (let n = (of_char c :: nat) in 97 \<le> n \<and> n \<le> 122)"

definition to_lower :: "char \<Rightarrow> char" where
  "to_lower c = (if ascii_upper c then char_of (of_char c + (32::nat)) else c)"

definition to_upper :: "char \<Rightarrow> char" where
  "to_upper c = (if ascii_lower c then char_of (of_char c - (32::nat)) else c)"

fun title_from :: "bool \<Rightarrow> string \<Rightarrow> string" where
  "title_from prev [] = []"
| "title_from prev (c # cs) =
     (if prev then to_lower c else to_upper c) # title_from (ascii_upper c \<or> ascii_lower c) cs"

definition ascii_title :: "string \<Rightarrow> string" where
  "ascii_title s = title_from False s"

definition ascii_methods :: str_methods where
  "ascii_methods = \<lparr>strip = ascii_strip, title = ascii_title\<rparr>"

text \<open>\<open>str(n)\<close> for an \<open>int\<close>: its decimal digits, with a minus sign when negative.\<close>

fun digits :: "nat \<Rightarrow> string" where
  "digits n =
     (if n < 10 then [char_of (48 + n)] else digits (n div 10) @ [char_of (48 + n mod 10)])"

definition str_int :: "int \<Rightarrow> string" where
  "str_int i = (if i < 0 then ''-'' @ digits (nat (- i)) else digits (nat i))"

text \<open>
  A JSON object a remote endpoint returns is an association list; the values the
  gateway contract names are strings, integers and lists of strings.
\<close>

datatype jval = JStr string | JInt int | JList "string list"

type_synonym jdict = "(string \<times> jval) list"

section \<open>Conversation sessions (the FSM context)\<close>

text \<open>
  The state groups of \<open>states/reg.py\<close> and \<open>states/admin.py\<close>. The storage keeps a state
  by its name \<open>Group:STATE\<close>, and the registration wizard uses that name as a key of
  the data bag.
\<close>

datatype state_tag =
    Reg_SURNAME | Reg_NAME | Reg_PATRONYMIC | Reg_GROUP | Reg_GITHUB | Reg_CONFIRM
  | AdminLogin_LOGIN | AdminLogin_PASSWORD
  | AdminMenu_MAIN | AdminMenu_GROUPS | AdminMenu_STUDENTS | AdminMenu_STUDENT_INFO
  | AdminMenu_COURSES | AdminMenu_COURSE_INFO | AdminMenu_EDIT | AdminMenu_CONFIRM

fun state_name :: "state_tag \<Rightarrow> string" where
  "state_name Reg_SURNAME = ''Reg:SURNAME''"
| "state_name Reg_NAME = ''Reg:NAME''"
| "state_name Reg_PATRONYMIC = ''Reg:PATRONYMIC''"
| "state_name Reg_GROUP = ''Reg:GROUP''"
| "state_name Reg_GITHUB = ''Reg:GITHUB''"
| "state_name Reg_CONFIRM = ''Reg:CONFIRM''"
| "state_name AdminLogin_LOGIN = ''AdminLogin:LOGIN''"
| "state_name AdminLogin_PASSWORD = ''AdminLogin:PASSWORD''"
| "state_name AdminMenu_MAIN = ''AdminMenu:MAIN''"
| "state_name AdminMenu_GROUPS = ''AdminMenu:GROUPS''"
| "state_name AdminMenu_STUDENTS = ''AdminMenu:STUDENTS''"
| "state_name AdminMenu_STUDENT_INFO = ''AdminMenu:STUDENT_INFO''"
| "state_name AdminMenu_COURSES = ''AdminMenu:COURSES''"
| "state_name AdminMenu_COURSE_INFO = ''AdminMenu:COURSE_INFO''"
| "state_name AdminMenu_EDIT = ''AdminMenu:EDIT''"
| "state_name AdminMenu_CONFIRM = ''AdminMenu:CONFIRM''"

text \<open>The values the modelled handlers put into a data bag: strings and integers.\<close>

datatype bval = VStr string | VInt int

type_synonym bag = "string \<rightharpoonup> bval"

fun truthy :: "bval option \<Rightarrow> bool" where
  "truthy None = False"
| "truthy (Some (VInt i)) = (i \<noteq> 0)"
| "truthy (Some (VStr s)) = (s \<noteq> [])"

fun fstr :: "bval \<Rightarrow> string" where
  "fstr (VStr s) = s"
| "fstr (VInt i) = str_int i"

record fsm_context =
  fsm_state :: "state_tag option"
  fsm_data :: bag

text \<open>
  The operations of aiogram's \<open>FSMContext\<close>: \<open>update_data\<close> merges the given mapping
  into the stored bag (the given keys win), \<open>clear\<close> resets the state and empties the bag.
\<close>

definition get_state :: "fsm_context \<Rightarrow> state_tag option" where
  "get_state ctx = fsm_state ctx"

definition set_state :: "state_tag \<Rightarrow> fsm_context \<Rightarrow> fsm_context" where
  "set_state s ctx = ctx\<lparr>fsm_state := Some s\<rparr>"

definition get_data :: "fsm_context \<Rightarrow> bag" where
  "get_data ctx = fsm_data ctx"

definition update_data :: "bag \<Rightarrow> fsm_context \<Rightarrow> fsm_context" where
  "update_data d ctx = ctx\<lparr>fsm_data := fsm_data ctx ++ d\<rparr>"

definition clear :: "fsm_context \<Rightarrow> fsm_context" where
  "clear ctx = \<lparr>fsm_state = None, fsm_data = Map.empty\<rparr>"

section \<open>The chat transport\<close>

text \<open>
  Keyboards are kept as terms: which keyboard a handler attaches, and with which
  arguments. A handler's effects on the chat are the list of the calls it makes, in order.
  A call the source guards with \<open>try\<close> carries its outcome; a call the source leaves
  unguarded is taken to return.
\<close>

datatype keyboard =
    Start_kb | Nav_kb bool | Confirm_kb | Main_menu_kb | Home_kb
  | Labs_kb "string list" string | No_kb
  | Login_back_kb | Admin_main_kb | Admin_courses_kb "jdict list" | Upload_back_kb

datatype api_call =
    Login bval string
  | Logout string
  | List_courses string
  | Delete_course string string
  | Get_courses
  | Register_student string string "string \<times> string \<times> string option \<times> string"
  | Get_groups string
  | Get_labs string string
  | Get_course_info string
  | Grade_lab string string string string

datatype event =
    Delete_message int bval
  | Send_message int string keyboard "int option"
  | Answer_message int string keyboard
  | Edit_text int int string keyboard
  | Answer_callback "string option" bool
  | Sleep nat
  | Call api_call

datatype delete_outcome = Deleted | Telegram_error | Other_error

record transport =
  delete_outcome :: delete_outcome
  send_outcome :: "int option"
  fallback_outcome :: "int option"

definition BOT_MSG_KEY :: string where
  "BOT_MSG_KEY = ''__bot_msg_id''"

definition prompt_surname :: string where
  \<comment> \<open>PROMPTS[Reg.SURNAME]: enter the surname\<close>
  "prompt_surname =
    [CHR 0xD0, CHR 0x92, CHR 0xD0, CHR 0xB2, CHR 0xD0, CHR 0xB5, CHR 0xD0, CHR 0xB4,
     CHR 0xD0, CHR 0xB8] @ '' '' @ [CHR 0xD1, CHR 0x84, CHR 0xD0, CHR 0xB0, CHR 0xD0,
     CHR 0xBC, CHR 0xD0, CHR 0xB8, CHR 0xD0, CHR 0xBB, CHR 0xD0, CHR 0xB8, CHR 0xD1,
     CHR 0x8E]"

definition prompt_name :: string where
  \<comment> \<open>PROMPTS[Reg.NAME]: enter the given name\<close>
  "prompt_name =
    [CHR 0xD0, CHR 0x92, CHR 0xD0, CHR 0xB2, CHR 0xD0, CHR 0xB5, CHR 0xD0, CHR 0xB4,
     CHR 0xD0, CHR 0xB8] @ '' '' @ [CHR 0xD0, CHR 0xB8, CHR 0xD0, CHR 0xBC, CHR 0xD1,
     CHR 0x8F]"

definition prompt_patronymic :: string where
  \<comment> \<open>PROMPTS[Reg.PATRONYMIC]: enter the patronymic (write - when there is none)\<close>
  "prompt_patronymic =
    [CHR 0xD0, CHR 0x92, CHR 0xD0, CHR 0xB2, CHR 0xD0, CHR 0xB5, CHR 0xD0, CHR 0xB4,
     CHR 0xD0, CHR 0xB8] @ '' '' @ [CHR 0xD0, CHR 0xBE, CHR 0xD1, CHR 0x82, CHR 0xD1,
     CHR 0x87, CHR 0xD0, CHR 0xB5, CHR 0xD1, CHR 0x81, CHR 0xD1, CHR 0x82, CHR 0xD0,
     CHR 0xB2, CHR 0xD0, CHR 0xBE, CHR 0x0A] @ ''('' @ [CHR 0xD0, CHR 0xB5, CHR 0xD1,
     CHR 0x81, CHR 0xD0, CHR 0xBB, CHR 0xD0, CHR 0xB8] @ '' '' @ [CHR 0xD0, CHR 0xBD,
     CHR 0xD0, CHR 0xB5, CHR 0xD1, CHR 0x82] @ '' '' @ [CHR 0xE2, CHR 0x80, CHR 0x94] @
     '' '' @ [CHR 0xD0, CHR 0xBD, CHR 0xD0, CHR 0xB0, CHR 0xD0, CHR 0xBF, CHR 0xD0,
     CHR 0xB8, CHR 0xD1, CHR 0x88, CHR 0xD0, CHR 0xB8] @ '' '' @ [CHR 0xC2, CHR 0xAB] @
     ''-'' @ [CHR 0xC2, CHR 0xBB] @ '')''"

definition prompt_group :: string where
  \<comment> \<open>PROMPTS[Reg.GROUP]: enter the group\<close>
  "prompt_group =
    [CHR 0xD0, CHR 0x92, CHR 0xD0, CHR 0xB2, CHR 0xD0, CHR 0xB5, CHR 0xD0, CHR 0xB4,
     CHR 0xD0, CHR 0xB8] @ '' '' @ [CHR 0xD0, CHR 0xB3, CHR 0xD1, CHR 0x80, CHR 0xD1,
     CHR 0x83, CHR 0xD0, CHR 0xBF, CHR 0xD0, CHR 0xBF, CHR 0xD1, CHR 0x83]"

definition prompt_github :: string where
  \<comment> \<open>PROMPTS[Reg.GITHUB]: enter the GitHub handle\<close>
  "prompt_github =
    [CHR 0xD0, CHR 0x92, CHR 0xD0, CHR 0xB2, CHR 0xD0, CHR 0xB5, CHR 0xD0, CHR 0xB4,
     CHR 0xD0, CHR 0xB8] @ '' GitHub''"

definition label_group :: string where
  \<comment> \<open>newline, then the label of the group line of a summary\<close>
  "label_group =
    [CHR 0x0A, CHR 0xD0, CHR 0x93, CHR 0xD1, CHR 0x80, CHR 0xD1, CHR 0x83, CHR 0xD0,
     CHR 0xBF, CHR 0xD0, CHR 0xBF, CHR 0xD0, CHR 0xB0] @ '': ''"

definition label_github :: string where
  \<comment> \<open>newline, then the label of the GitHub line of a summary\<close>
  "label_github =
    [CHR 0x0A] @ ''GitHub: ''"

definition txt_registered :: string where
  \<comment> \<open>registration finished, main menu\<close>
  "txt_registered =
    [CHR 0xE2, CHR 0x9C, CHR 0x85] @ '' '' @ [CHR 0xD0, CHR 0xA0, CHR 0xD0, CHR 0xB5,
     CHR 0xD0, CHR 0xB3, CHR 0xD0, CHR 0xB8, CHR 0xD1, CHR 0x81, CHR 0xD1, CHR 0x82,
     CHR 0xD1, CHR 0x80, CHR 0xD0, CHR 0xB0, CHR 0xD1, CHR 0x86, CHR 0xD0, CHR 0xB8,
     CHR 0xD1, CHR 0x8F] @ '' '' @ [CHR 0xD0, CHR 0xB7, CHR 0xD0, CHR 0xB0, CHR 0xD0,
     CHR 0xB2, CHR 0xD0, CHR 0xB5, CHR 0xD1, CHR 0x80, CHR 0xD1, CHR 0x88, CHR 0xD0,
     CHR 0xB5, CHR 0xD0, CHR 0xBD, CHR 0xD0, CHR 0xB0, CHR 0x0A, CHR 0x0A, CHR 0xF0,
     CHR 0x9F, CHR 0x8F, CHR 0xA0] @ '' '' @ [CHR 0xD0, CHR 0x93, CHR 0xD0, CHR 0xBB,
     CHR 0xD0, CHR 0xB0, CHR 0xD0, CHR 0xB2, CHR 0xD0, CHR 0xBD, CHR 0xD0, CHR 0xBE,
     CHR 0xD0, CHR 0xB5] @ '' '' @ [CHR 0xD0, CHR 0xBC, CHR 0xD0, CHR 0xB5, CHR 0xD0,
     CHR 0xBD, CHR 0xD1, CHR 0x8E]"

definition txt_duplicate :: string where
  \<comment> \<open>a student with the same data is already registered; contact the administrator\<close>
  "txt_duplicate =
    [CHR 0xE2, CHR 0x9D, CHR 0x8C] @ '' '' @ [CHR 0xD0, CHR 0xA1, CHR 0xD1, CHR 0x82,
     CHR 0xD1, CHR 0x83, CHR 0xD0, CHR 0xB4, CHR 0xD0, CHR 0xB5, CHR 0xD0, CHR 0xBD,
     CHR 0xD1, CHR 0x82] @ '' '' @ [CHR 0xD1, CHR 0x81] @ '' '' @ [CHR 0xD1, CHR 0x82,
     CHR 0xD0, CHR 0xB0, CHR 0xD0, CHR 0xBA, CHR 0xD0, CHR 0xB8, CHR 0xD0, CHR 0xBC,
     CHR 0xD0, CHR 0xB8] @ '' '' @ [CHR 0xD0, CHR 0xB6, CHR 0xD0, CHR 0xB5] @ '' '' @
     [CHR 0xD0, CHR 0xB4, CHR 0xD0, CHR 0xB0, CHR 0xD0, CHR 0xBD, CHR 0xD0, CHR 0xBD,
     CHR 0xD1, CHR 0x8B, CHR 0xD0, CHR 0xBC, CHR 0xD0, CHR 0xB8] @ '' '' @ [CHR 0xD1,
     CHR 0x83, CHR 0xD0, CHR 0xB6, CHR 0xD0, CHR 0xB5] @ '' '' @ [CHR 0xD0, CHR 0xB7,
     CHR 0xD0, CHR 0xB0, CHR 0xD1, CHR 0x80, CHR 0xD0, CHR 0xB5, CHR 0xD0, CHR 0xB3,
     CHR 0xD0, CHR 0xB8, CHR 0xD1, CHR 0x81, CHR 0xD1, CHR 0x82, CHR 0xD1, CHR 0x80,
     CHR 0xD0, CHR 0xB8, CHR 0xD1, CHR 0x80, CHR 0xD0, CHR 0xBE, CHR 0xD0, CHR 0xB2,
     CHR 0xD0, CHR 0xB0, CHR 0xD0, CHR 0xBD] @ '' '' @ [CHR 0xD0, CHR 0xB2] @ '' '' @
     [CHR 0xD1, CHR 0x81, CHR 0xD0, CHR 0xB8, CHR 0xD1, CHR 0x81, CHR 0xD1, CHR 0x82,
     CHR 0xD0, CHR 0xB5, CHR 0xD0, CHR 0xBC, CHR 0xD0, CHR 0xB5] @ ''.'' @ [CHR 0x0A,
     CHR 0x0A, CHR 0xD0, CHR 0x95, CHR 0xD1, CHR 0x81, CHR 0xD0, CHR 0xBB, CHR 0xD0,
     CHR 0xB8] @ '' '' @ [CHR 0xD1, CHR 0x8D, CHR 0xD1, CHR 0x82, CHR 0xD0, CHR 0xBE] @
     '' '' @ [CHR 0xD0, CHR 0xB2, CHR 0xD0, CHR 0xB0, CHR 0xD1, CHR 0x88, CHR 0xD0,
     CHR 0xB8] @ '' '' @ [CHR 0xD0, CHR 0xB4, CHR 0xD0, CHR 0xB0, CHR 0xD0, CHR 0xBD,
     CHR 0xD0, CHR 0xBD, CHR 0xD1, CHR 0x8B, CHR 0xD0, CHR 0xB5] @ '', '' @ [CHR 0xD0,
     CHR 0xBD, CHR 0xD0, CHR 0xBE] @ '' '' @ [CHR 0xD0, CHR 0xB2, CHR 0xD1, CHR 0x8B] @
     '' '' @ [CHR 0xD0, CHR 0xB8, CHR 0xD1, CHR 0x81, CHR 0xD0, CHR 0xBF, CHR 0xD0,
     CHR 0xBE, CHR 0xD0, CHR 0xBB, CHR 0xD1, CHR 0x8C, CHR 0xD0, CHR 0xB7, CHR 0xD1,
     CHR 0x83, CHR 0xD0, CHR 0xB5, CHR 0xD1, CHR 0x82, CHR 0xD0, CHR 0xB5] @ '' '' @
     [CHR 0xD0, CHR 0xB4, CHR 0xD1, CHR 0x80, CHR 0xD1, CHR 0x83, CHR 0xD0, CHR 0xB3,
     CHR 0xD0, CHR 0xBE, CHR 0xD0, CHR 0xB9] @ '' Telegram '' @ [CHR 0xD0, CHR 0xB0,
     CHR 0xD0, CHR 0xBA, CHR 0xD0, CHR 0xBA, CHR 0xD0, CHR 0xB0, CHR 0xD1, CHR 0x83,
     CHR 0xD0, CHR 0xBD, CHR 0xD1, CHR 0x82] @ '', '' @ [CHR 0xD0, CHR 0xBF, CHR 0xD0,
     CHR 0xBE, CHR 0xD0, CHR 0xB6, CHR 0xD0, CHR 0xB0, CHR 0xD0, CHR 0xBB, CHR 0xD1,
     CHR 0x83, CHR 0xD0, CHR 0xB9, CHR 0xD1, CHR 0x81, CHR 0xD1, CHR 0x82, CHR 0xD0,
     CHR 0xB0] @ '', '' @ [CHR 0xD0, CHR 0xBE, CHR 0xD0, CHR 0xB1, CHR 0xD1, CHR 0x80,
     CHR 0xD0, CHR 0xB0, CHR 0xD1, CHR 0x82, CHR 0xD0, CHR 0xB8, CHR 0xD1, CHR 0x82,
     CHR 0xD0, CHR 0xB5, CHR 0xD1, CHR 0x81, CHR 0xD1, CHR 0x8C] @ '' '' @ [CHR 0xD0,
     CHR 0xBA] @ '' '' @ [CHR 0xD0, CHR 0xB0, CHR 0xD0, CHR 0xB4, CHR 0xD0, CHR 0xBC,
     CHR 0xD0, CHR 0xB8, CHR 0xD0, CHR 0xBD, CHR 0xD0, CHR 0xB8, CHR 0xD1, CHR 0x81,
     CHR 0xD1, CHR 0x82, CHR 0xD1, CHR 0x80, CHR 0xD0, CHR 0xB0, CHR 0xD1, CHR 0x82,
     CHR 0xD0, CHR 0xBE, CHR 0xD1, CHR 0x80, CHR 0xD1, CHR 0x83] @ ''.''"

definition txt_reg_failed :: string where
  \<comment> \<open>an error occurred during registration, try later\<close>
  "txt_reg_failed =
    [CHR 0xE2, CHR 0x9D, CHR 0x8C] @ '' '' @ [CHR 0xD0, CHR 0x9F, CHR 0xD1, CHR 0x80,
     CHR 0xD0, CHR 0xBE, CHR 0xD0, CHR 0xB8, CHR 0xD0, CHR 0xB7, CHR 0xD0, CHR 0xBE,
     CHR 0xD1, CHR 0x88, CHR 0xD0, CHR 0xBB, CHR 0xD0, CHR 0xB0] @ '' '' @ [CHR 0xD0,
     CHR 0xBE, CHR 0xD1, CHR 0x88, CHR 0xD0, CHR 0xB8, CHR 0xD0, CHR 0xB1, CHR 0xD0,
     CHR 0xBA, CHR 0xD0, CHR 0xB0] @ '' '' @ [CHR 0xD0, CHR 0xBF, CHR 0xD1, CHR 0x80,
     CHR 0xD0, CHR 0xB8] @ '' '' @ [CHR 0xD1, CHR 0x80, CHR 0xD0, CHR 0xB5, CHR 0xD0,
     CHR 0xB3, CHR 0xD0, CHR 0xB8, CHR 0xD1, CHR 0x81, CHR 0xD1, CHR 0x82, CHR 0xD1,
     CHR 0x80, CHR 0xD0, CHR 0xB0, CHR 0xD1, CHR 0x86, CHR 0xD0, CHR 0xB8, CHR 0xD0,
     CHR 0xB8] @ ''. '' @ [CHR 0xD0, CHR 0x9F, CHR 0xD0, CHR 0xBE, CHR 0xD0, CHR 0xBF,
     CHR 0xD1, CHR 0x80, CHR 0xD0, CHR 0xBE, CHR 0xD0, CHR 0xB1, CHR 0xD1, CHR 0x83,
     CHR 0xD0, CHR 0xB9, CHR 0xD1, CHR 0x82, CHR 0xD0, CHR 0xB5] @ '' '' @ [CHR 0xD0,
     CHR 0xBF, CHR 0xD0, CHR 0xBE, CHR 0xD0, CHR 0xB7, CHR 0xD0, CHR 0xB6, CHR 0xD0,
     CHR 0xB5] @ ''.''"

section \<open>The registration wizard (handlers/student.py)\<close>

definition PROMPTS :: "state_tag \<rightharpoonup> string" where
  "PROMPTS = [Reg_SURNAME \<mapsto> prompt_surname, Reg_NAME \<mapsto> prompt_name,
     Reg_PATRONYMIC \<mapsto> prompt_patronymic, Reg_GROUP \<mapsto> prompt_group,
     Reg_GITHUB \<mapsto> prompt_github]"

definition ORDER :: "state_tag list" where
  "ORDER = [Reg_SURNAME, Reg_NAME, Reg_PATRONYMIC, Reg_GROUP, Reg_GITHUB]"

text \<open>\<open>PREV = {ORDER[i + 1]: ORDER[i] for i in range(len(ORDER) - 1)}\<close>\<close>

definition PREV :: "state_tag \<rightharpoonup> state_tag" where
  "PREV = map_of (zip (tl ORDER) ORDER)"

text \<open>\<open>ORDER.index(s)\<close>, when \<open>s\<close> is in the list.\<close>

fun index_of :: "'a \<Rightarrow> 'a list \<Rightarrow> nat option" where
  "index_of x [] = None"
| "index_of x (y # ys) = (if x = y then Some 0 else map_option Suc (index_of x ys))"

definition normalize_fio :: "str_methods \<Rightarrow> string \<Rightarrow> string" where
  "normalize_fio py txt = title py (strip py txt)"

text \<open>
  \<open>_send\<close> of the student handlers. \<open>_cleanup_prev\<close> deletes the message stored under
  \<open>BOT_MSG_KEY\<close> and swallows Telegram's own errors; any other exception, and a failed
  send, reach the \<open>except\<close> branch, which sends once more without tracking the message.
\<close>

definition send_student ::
  "transport \<Rightarrow> int \<Rightarrow> string \<Rightarrow> keyboard \<Rightarrow> fsm_context \<Rightarrow> fsm_context \<times> event list" where
  "send_student tr chat txt kb ctx =
     (let msg_id = get_data ctx BOT_MSG_KEY;
          dels = (case msg_id of
                    Some v \<Rightarrow> if truthy msg_id then [Delete_message chat v] else []
                  | None \<Rightarrow> []);
          escaped = (truthy msg_id \<and> delete_outcome tr = Other_error)
      in if escaped
         then (ctx, dels @ [Send_message chat txt kb (fallback_outcome tr)])
         else (case send_outcome tr of
                 Some m \<Rightarrow>
                   (update_data [BOT_MSG_KEY \<mapsto> VInt m] ctx,
                    dels @ [Send_message chat txt kb (Some m)])
               | None \<Rightarrow>
                   (ctx, dels @ [Send_message chat txt kb None,
                                 Send_message chat txt kb (fallback_outcome tr)])))"

text \<open>\<open>reg_start\<close>: a fresh session in SURNAME, and the first prompt.\<close>

definition reg_start ::
  "transport \<Rightarrow> int \<Rightarrow> int \<Rightarrow> fsm_context \<Rightarrow> fsm_context \<times> event list \<times> error option" where
  "reg_start tr chat mid ctx =
     (let ctx1 = set_state Reg_SURNAME (clear ctx);
          (ctx2, ev) = send_student tr chat prompt_surname (Nav_kb False) ctx1
      in (ctx2, [Delete_message chat (VInt mid)] @ ev @ [Answer_callback None False], None))"

text \<open>The summary of the CONFIRM step: an f-string over five keys of the bag.\<close>

text \<open>An exception ends the evaluation of what follows it.\<close>

definition bind :: "error + 'a \<Rightarrow> ('a \<Rightarrow> error + 'b) \<Rightarrow> error + 'b" where
  "bind m f = (case m of Inl e \<Rightarrow> Inl e | Inr x \<Rightarrow> f x)"

definition lookup :: "bag \<Rightarrow> string \<Rightarrow> error + bval" where
  "lookup d k = (case d k of None \<Rightarrow> Inl KeyError | Some v \<Rightarrow> Inr v)"

definition summary :: "bag \<Rightarrow> error + string" where
  "summary s =
     bind (lookup s (state_name Reg_SURNAME)) (\<lambda>a.
     bind (lookup s (state_name Reg_NAME)) (\<lambda>b.
     bind (lookup s (state_name Reg_PATRONYMIC)) (\<lambda>c.
     bind (lookup s (state_name Reg_GROUP)) (\<lambda>g.
     bind (lookup s (state_name Reg_GITHUB)) (\<lambda>h.
       Inr (''<b>'' @ fstr a @ '' '' @ fstr b @ '' '' @ fstr c @ ''</b>''
            @ label_group @ fstr g @ label_github @ fstr h))))))"

text \<open>
  The text \<open>reg_steps\<close> stores in state \<open>cur\<close>: the message text stripped, and for
  the three name fields normalised as well.
\<close>

definition step_text :: "str_methods \<Rightarrow> state_tag \<Rightarrow> string \<Rightarrow> string" where
  "step_text py cur raw =
     (let txt = strip py raw
      in if cur \<in> set [Reg_SURNAME, Reg_NAME, Reg_PATRONYMIC] then normalize_fio py txt else txt)"

text \<open>
  \<open>reg_steps\<close>: the router calls it in the five states of \<open>ORDER\<close> only, with a text
  message. In any other state the search for the current state in \<open>ORDER\<close> raises.
\<close>

definition reg_steps ::
  "str_methods \<Rightarrow> transport \<Rightarrow> int \<Rightarrow> int \<Rightarrow> string \<Rightarrow> fsm_context \<Rightarrow> fsm_context \<times> event list \<times> error option" where
  "reg_steps py tr chat mid raw ctx =
     (let ev0 = [Delete_message chat (VInt mid)] in
      case get_state ctx of
        None \<Rightarrow> (ctx, ev0, Some StopIteration)
      | Some cur \<Rightarrow>
          (let txt = step_text py cur raw;
               data = (get_data ctx)(state_name cur \<mapsto> VStr txt);
               ctx1 = update_data data ctx
           in case index_of cur ORDER of
                None \<Rightarrow> (ctx1, ev0, Some StopIteration)
              | Some i \<Rightarrow>
                  if cur \<noteq> Reg_GITHUB
                  then (let nxt = ORDER ! (i + 1);
                            ctx2 = set_state nxt ctx1
                        in case PROMPTS nxt of
                             None \<Rightarrow> (ctx2, ev0, Some KeyError)
                           | Some p \<Rightarrow>
                               (let (ctx3, ev) = send_student tr chat p (Nav_kb True) ctx2
                                in (ctx3, ev0 @ ev, None)))
                  else (let ctx2 = set_state Reg_CONFIRM ctx1
                        in case summary data of
                             Inl e \<Rightarrow> (ctx2, ev0, Some e)
                           | Inr s \<Rightarrow>
                               (let (ctx3, ev) = send_student tr chat s Confirm_kb ctx2
                                in (ctx3, ev0 @ ev, None)))))"

text \<open>
  \<open>reg_back\<close>: the predecessor in \<open>ORDER\<close>, or nothing from SURNAME. The bag is read,
  \<open>BOT_MSG_KEY\<close> is popped from the copy, and the copy is merged back.
\<close>

definition reg_back ::
  "transport \<Rightarrow> int \<Rightarrow> int \<Rightarrow> fsm_context \<Rightarrow> fsm_context \<times> event list \<times> error option" where
  "reg_back tr chat mid ctx =
     (case get_state ctx of
        None \<Rightarrow> (ctx, [], Some StopIteration)
      | Some cur \<Rightarrow>
          if cur \<notin> set ORDER then (ctx, [], Some StopIteration)
          else (case PREV cur of
                  None \<Rightarrow> (ctx, [Answer_callback None False], None)
                | Some prev \<Rightarrow>
                    (let data = (get_data ctx)(BOT_MSG_KEY := None);
                         ctx1 = update_data data ctx;
                         ctx2 = set_state prev ctx1
                     in case PROMPTS prev of
                          None \<Rightarrow> (ctx2, [Delete_message chat (VInt mid)], Some KeyError)
                        | Some p \<Rightarrow>
                            (let (ctx3, ev) =
                                   send_student tr chat p (Nav_kb (prev \<noteq> Reg_SURNAME)) ctx2
                             in (ctx3, [Delete_message chat (VInt mid)] @ ev
                                       @ [Answer_callback None False], None)))))"

section \<open>The student registry (models/student.py, services/student.py)\<close>

record course_ref =
  cr_name :: string
  cr_semester :: string

record student =
  st_id :: "int option"
  st_chat_id :: int
  st_surname :: string
  st_name :: string
  st_patronymic :: "string option"
  st_group_code :: string
  st_github :: string
  st_courses :: "course_ref list"
  st_created_at :: "int option"
  st_updated_at :: "int option"

text \<open>
  The \<open>students\<close> table of \<open>models/base.py\<close>: its rows in insertion order and the last
  id AUTOINCREMENT gave out. The table declares \<open>chat_id\<close> UNIQUE and
  \<open>UNIQUE(surname, name, group_code, github)\<close>; an INSERT or UPDATE that would break
  either raises \<open>IntegrityError\<close>. Times are integers (seconds).
\<close>

record students_table =
  tbl_rows :: "student list"
  tbl_last_id :: int

definition same_identity :: "student \<Rightarrow> student \<Rightarrow> bool" where
  "same_identity a b =
     (st_surname a = st_surname b \<and> st_name a = st_name b
      \<and> st_group_code a = st_group_code b \<and> st_github a = st_github b)"

text \<open>Python's \<open>if student.id\<close>: neither \<open>None\<close> nor zero.\<close>

definition id_set :: "int option \<Rightarrow> bool" where
  "id_set i = (case i of None \<Rightarrow> False | Some n \<Rightarrow> n \<noteq> 0)"

definition get_by_chat :: "int \<Rightarrow> students_table \<Rightarrow> student option" where
  "get_by_chat chat t = find (\<lambda>r. st_chat_id r = chat) (tbl_rows t)"

definition check_existing_student :: "student \<Rightarrow> students_table \<Rightarrow> student option" where
  "check_existing_student s t = find (\<lambda>r. same_identity r s) (tbl_rows t)"

definition sql_insert :: "int \<Rightarrow> student \<Rightarrow> students_table \<Rightarrow> error + students_table" where
  "sql_insert now s t =
     (if list_ex (\<lambda>r. st_chat_id r = st_chat_id s) (tbl_rows t)
         \<or> list_ex (\<lambda>r. same_identity r s) (tbl_rows t)
      then Inl IntegrityError
      else Inr \<lparr>tbl_rows = tbl_rows t @
                   [s\<lparr>st_id := Some (tbl_last_id t + 1), st_created_at := Some now,
                      st_updated_at := Some now\<rparr>],
                tbl_last_id = tbl_last_id t + 1\<rparr>)"

definition sql_update :: "int \<Rightarrow> student \<Rightarrow> students_table \<Rightarrow> error + students_table" where
  "sql_update now s t =
     (if list_ex (\<lambda>r. st_id r = st_id s) (tbl_rows t)
         \<and> list_ex (\<lambda>r. st_id r \<noteq> st_id s \<and> same_identity r s) (tbl_rows t)
      then Inl IntegrityError
      else Inr (t\<lparr>tbl_rows :=
                   map (\<lambda>r. if st_id r = st_id s
                             then r\<lparr>st_surname := st_surname s, st_name := st_name s,
                                    st_patronymic := st_patronymic s,
                                    st_group_code := st_group_code s,
                                    st_github := st_github s, st_courses := st_courses s,
                                    st_updated_at := Some now\<rparr>
                             else r)
                       (tbl_rows t)\<rparr>))"

text \<open>
  \<open>StudentRepository.save\<close>: a student without an id is looked up by identity first, and
  an existing one raises \<open>ValueError\<close>; then UPDATE with an id, INSERT without.
\<close>

definition save :: "int \<Rightarrow> student \<Rightarrow> students_table \<Rightarrow> error + students_table" where
  "save now s t =
     (let existing = (if \<not> id_set (st_id s) then check_existing_student s t else None)
      in if existing \<noteq> None then Inl ValueError
         else if id_set (st_id s) then sql_update now s t
         else sql_insert now s t)"

text \<open>
  \<open>reg_confirm\<close>: the bag is read and the session cleared before anything else. The
  \<open>Student\<close> model takes strings only (a validation error otherwise).
\<close>

definition as_str :: "bval \<Rightarrow> error + string" where
  "as_str v = (case v of VStr s \<Rightarrow> Inr s | VInt i \<Rightarrow> Inl ValidationError)"

definition build_student :: "int \<Rightarrow> bag \<Rightarrow> error + student" where
  "build_student chat data =
     bind (lookup data (state_name Reg_SURNAME)) (\<lambda>a.
     bind (lookup data (state_name Reg_NAME)) (\<lambda>b.
     bind (lookup data (state_name Reg_PATRONYMIC)) (\<lambda>c.
     bind (lookup data (state_name Reg_GROUP)) (\<lambda>g.
     bind (lookup data (state_name Reg_GITHUB)) (\<lambda>h.
     bind (as_str a) (\<lambda>a'.
     bind (as_str b) (\<lambda>b'.
     bind (if c = VStr ''-'' then Inr None else map_sum id Some (as_str c)) (\<lambda>c'.
     bind (as_str g) (\<lambda>g'.
     bind (as_str h) (\<lambda>h'.
       Inr \<lparr>st_id = None, st_chat_id = chat, st_surname = a', st_name = b',
            st_patronymic = c', st_group_code = g', st_github = h', st_courses = [],
            st_created_at = None, st_updated_at = None\<rparr>))))))))))"

definition reg_confirm ::
  "int \<Rightarrow> int \<Rightarrow> int \<Rightarrow> fsm_context \<Rightarrow> students_table
     \<Rightarrow> fsm_context \<times> students_table \<times> event list \<times> error option" where
  "reg_confirm now chat mid ctx t =
     (let data = get_data ctx;
          ctx1 = clear ctx
      in case build_student chat data of
           Inl e \<Rightarrow> (ctx1, t, [], Some e)
         | Inr s \<Rightarrow>
             (case save now s t of
                Inr t' \<Rightarrow>
                  (ctx1, t', [Delete_message chat (VInt mid),
                              Answer_message chat txt_registered Main_menu_kb,
                              Answer_callback None False], None)
              | Inl ValueError \<Rightarrow>
                  (ctx1, t, [Delete_message chat (VInt mid),
                             Answer_message chat txt_duplicate Start_kb,
                             Answer_callback None False], None)
              | Inl _ \<Rightarrow>
                  (ctx1, t, [Delete_message chat (VInt mid),
                             Answer_message chat txt_reg_failed Start_kb,
                             Answer_callback None False], None)))"

definition txt_bad_credentials :: string where
  \<comment> \<open>wrong data, try once more\<close>
  "txt_bad_credentials =
    [CHR 0xE2, CHR 0x9D, CHR 0x8C] @ '' '' @ [CHR 0xD0, CHR 0x9D, CHR 0xD0, CHR 0xB5,
     CHR 0xD0, CHR 0xB2, CHR 0xD0, CHR 0xB5, CHR 0xD1, CHR 0x80, CHR 0xD0, CHR 0xBD,
     CHR 0xD1, CHR 0x8B, CHR 0xD0, CHR 0xB5] @ '' '' @ [CHR 0xD0, CHR 0xB4, CHR 0xD0,
     CHR 0xB0, CHR 0xD0, CHR 0xBD, CHR 0xD0, CHR 0xBD, CHR 0xD1, CHR 0x8B, CHR 0xD0,
     CHR 0xB5] @ ''. '' @ [CHR 0xD0, CHR 0x9F, CHR 0xD0, CHR 0xBE, CHR 0xD0, CHR 0xBF,
     CHR 0xD1, CHR 0x80, CHR 0xD0, CHR 0xBE, CHR 0xD0, CHR 0xB1, CHR 0xD1, CHR 0x83,
     CHR 0xD0, CHR 0xB9, CHR 0xD1, CHR 0x82, CHR 0xD0, CHR 0xB5] @ '' '' @ [CHR 0xD0,
     CHR 0xB5, CHR 0xD1, CHR 0x89, CHR 0xD1, CHR 0x91] @ '' '' @ [CHR 0xD1, CHR 0x80,
     CHR 0xD0, CHR 0xB0, CHR 0xD0, CHR 0xB7]"

definition txt_admin_panel :: string where
  \<comment> \<open>admin panel\<close>
  "txt_admin_panel =
    [CHR 0xF0, CHR 0x9F, CHR 0x94, CHR 0xA7] @ '' '' @ [CHR 0xD0, CHR 0x90, CHR 0xD0,
     CHR 0xB4, CHR 0xD0, CHR 0xBC, CHR 0xD0, CHR 0xB8, CHR 0xD0, CHR 0xBD] @ ''-'' @
     [CHR 0xD0, CHR 0xBF, CHR 0xD0, CHR 0xB0, CHR 0xD0, CHR 0xBD, CHR 0xD0, CHR 0xB5,
     CHR 0xD0, CHR 0xBB, CHR 0xD1, CHR 0x8C]"

definition txt_login_again :: string where
  \<comment> \<open>you have to log in again\<close>
  "txt_login_again =
    [CHR 0xE2, CHR 0x9A, CHR 0xA0, CHR 0xEF, CHR 0xB8, CHR 0x8F] @ '' '' @ [CHR 0xD0,
     CHR 0x9D, CHR 0xD1, CHR 0x83, CHR 0xD0, CHR 0xB6, CHR 0xD0, CHR 0xBD, CHR 0xD0,
     CHR 0xBE] @ '' '' @ [CHR 0xD0, CHR 0xB2, CHR 0xD0, CHR 0xBE, CHR 0xD0, CHR 0xB9,
     CHR 0xD1, CHR 0x82, CHR 0xD0, CHR 0xB8] @ '' '' @ [CHR 0xD0, CHR 0xB7, CHR 0xD0,
     CHR 0xB0, CHR 0xD0, CHR 0xBD, CHR 0xD0, CHR 0xBE, CHR 0xD0, CHR 0xB2, CHR 0xD0,
     CHR 0xBE]"

definition txt_session_expired :: string where
  \<comment> \<open>the session has expired\<close>
  "txt_session_expired =
    [CHR 0xE2, CHR 0x8F, CHR 0xB0] @ '' '' @ [CHR 0xD0, CHR 0xA1, CHR 0xD0, CHR 0xB5,
     CHR 0xD1, CHR 0x81, CHR 0xD1, CHR 0x81, CHR 0xD0, CHR 0xB8, CHR 0xD1, CHR 0x8F] @
     '' '' @ [CHR 0xD0, CHR 0xB8, CHR 0xD1, CHR 0x81, CHR 0xD1, CHR 0x82, CHR 0xD0,
     CHR 0xB5, CHR 0xD0, CHR 0xBA, CHR 0xD0, CHR 0xBB, CHR 0xD0, CHR 0xB0]"

definition txt_session_closed :: string where
  \<comment> \<open>the session is closed\<close>
  "txt_session_closed =
    [CHR 0xE2, CHR 0x9C, CHR 0x85] @ '' '' @ [CHR 0xD0, CHR 0xA1, CHR 0xD0, CHR 0xB5,
     CHR 0xD1, CHR 0x81, CHR 0xD1, CHR 0x81, CHR 0xD0, CHR 0xB8, CHR 0xD1, CHR 0x8F] @
     '' '' @ [CHR 0xD0, CHR 0xB7, CHR 0xD0, CHR 0xB0, CHR 0xD0, CHR 0xB2, CHR 0xD0,
     CHR 0xB5, CHR 0xD1, CHR 0x80, CHR 0xD1, CHR 0x88, CHR 0xD0, CHR 0xB5, CHR 0xD0,
     CHR 0xBD, CHR 0xD0, CHR 0xB0]"

definition txt_courses :: string where
  \<comment> \<open>courses:\<close>
  "txt_courses =
    [CHR 0xF0, CHR 0x9F, CHR 0x93, CHR 0x9A] @ '' '' @ [CHR 0xD0, CHR 0x9A, CHR 0xD1,
     CHR 0x83, CHR 0xD1, CHR 0x80, CHR 0xD1, CHR 0x81, CHR 0xD1, CHR 0x8B] @ '':''"

definition txt_delete_failed :: string where
  \<comment> \<open>the course could not be deleted\<close>
  "txt_delete_failed =
    [CHR 0xE2, CHR 0x9D, CHR 0x8C] @ '' '' @ [CHR 0xD0, CHR 0x9E, CHR 0xD1, CHR 0x88,
     CHR 0xD0, CHR 0xB8, CHR 0xD0, CHR 0xB1, CHR 0xD0, CHR 0xBA, CHR 0xD0, CHR 0xB0] @
     '' '' @ [CHR 0xD1, CHR 0x83, CHR 0xD0, CHR 0xB4, CHR 0xD0, CHR 0xB0, CHR 0xD0,
     CHR 0xBB, CHR 0xD0, CHR 0xB5, CHR 0xD0, CHR 0xBD, CHR 0xD0, CHR 0xB8, CHR 0xD1,
     CHR 0x8F] @ '' '' @ [CHR 0xD0, CHR 0xBA, CHR 0xD1, CHR 0x83, CHR 0xD1, CHR 0x80,
     CHR 0xD1, CHR 0x81, CHR 0xD0, CHR 0xB0]"

definition txt_send_course_file :: string where
  \<comment> \<open>send the course file\<close>
  "txt_send_course_file =
    [CHR 0xF0, CHR 0x9F, CHR 0x93, CHR 0xA4] @ '' '' @ [CHR 0xD0, CHR 0x9E, CHR 0xD1,
     CHR 0x82, CHR 0xD0, CHR 0xBF, CHR 0xD1, CHR 0x80, CHR 0xD0, CHR 0xB0, CHR 0xD0,
     CHR 0xB2, CHR 0xD1, CHR 0x8C, CHR 0xD1, CHR 0x82, CHR 0xD0, CHR 0xB5] @ '' '' @
     [CHR 0xD1, CHR 0x84, CHR 0xD0, CHR 0xB0, CHR 0xD0, CHR 0xB9, CHR 0xD0, CHR 0xBB] @
     '' '' @ [CHR 0xD0, CHR 0xBA, CHR 0xD1, CHR 0x83, CHR 0xD1, CHR 0x80, CHR 0xD1,
     CHR 0x81, CHR 0xD0, CHR 0xB0]"

section \<open>The admin session store (services/admin.py)\<close>

text \<open>
  The \<open>admin_sessions\<close> table: \<open>None\<close> until \<open>ensure_table\<close> has created it (a
  statement on a missing table raises \<open>OperationalError\<close>), then its rows, each a cookie
  and the time it expires at.
\<close>

type_synonym session_row = "string \<times> int"

type_synonym sessions = "session_row list option"

definition ensure_table :: "sessions \<Rightarrow> sessions" where
  "ensure_table db = (case db of None \<Rightarrow> Some [] | Some rows \<Rightarrow> Some rows)"

text \<open>\<open>SELECT cookie, expires_at FROM admin_sessions LIMIT 1\<close>\<close>

definition get_cookie :: "sessions \<Rightarrow> error + session_row option" where
  "get_cookie db =
     (case db of
        None \<Rightarrow> Inl OperationalError
      | Some [] \<Rightarrow> Inr None
      | Some (row # _) \<Rightarrow> Inr (Some row))"

definition default_ttl :: int where
  "default_ttl = 3600"

text \<open>\<open>save_cookie\<close>: DELETE every row, then INSERT the new one.\<close>

definition save_cookie :: "int \<Rightarrow> string \<Rightarrow> int \<Rightarrow> sessions \<Rightarrow> error + sessions" where
  "save_cookie now cookie ttl_sec db =
     (let expires = now + ttl_sec
      in case db of
           None \<Rightarrow> Inl OperationalError
         | Some rows \<Rightarrow> Inr (Some [(cookie, expires)]))"

definition clear_sessions :: "sessions \<Rightarrow> error + sessions" where
  "clear_sessions db = (case db of None \<Rightarrow> Inl OperationalError | Some rows \<Rightarrow> Inr (Some []))"

text \<open>
  A sequence of calls of the two mutating operations of \<open>AdminSessionRepo\<close>, run in
  order; an exception ends it.
\<close>

datatype repo_op = Op_save_cookie int string | Op_clear

fun run_op :: "repo_op \<Rightarrow> sessions \<Rightarrow> error + sessions" where
  "run_op (Op_save_cookie now cookie) db = save_cookie now cookie default_ttl db"
| "run_op Op_clear db = clear_sessions db"

fun run_ops :: "repo_op list \<Rightarrow> sessions \<Rightarrow> error + sessions" where
  "run_ops [] db = Inr db"
| "run_ops (x # xs) db = (case run_op x db of Inl e \<Rightarrow> Inl e | Inr db' \<Rightarrow> run_ops xs db')"

text \<open>
  \<open>AdminAPI.login\<close>: the value of the \<open>admin_session\<close> cookie of a response with status
  200, and \<open>None\<close> for any other response.
\<close>

record login_response =
  lr_status :: int
  lr_cookie :: "string option"

definition login :: "login_response \<Rightarrow> string option" where
  "login r = (if lr_status r = 200
              then (case lr_cookie r of Some v \<Rightarrow> Some v | None \<Rightarrow> None)
              else None)"

section \<open>The admin handlers (handlers/admin.py)\<close>

text \<open>\<open>_send\<close> of the admin handlers: the delete of the previous message never raises.\<close>

definition send_admin ::
  "transport \<Rightarrow> int \<Rightarrow> string \<Rightarrow> keyboard \<Rightarrow> fsm_context \<Rightarrow> fsm_context \<times> event list" where
  "send_admin tr chat txt kb ctx =
     (let msg_id = get_data ctx BOT_MSG_KEY;
          dels = (case msg_id of
                    Some v \<Rightarrow> if truthy msg_id then [Delete_message chat v] else []
                  | None \<Rightarrow> [])
      in case send_outcome tr of
           Some m \<Rightarrow>
             (update_data [BOT_MSG_KEY \<mapsto> VInt m] ctx,
              dels @ [Send_message chat txt kb (Some m)])
         | None \<Rightarrow>
             (ctx, dels @ [Send_message chat txt kb None,
                           Send_message chat txt kb (fallback_outcome tr)]))"

text \<open>Python's \<open>if not cookie\<close> on the result of \<open>login\<close>: \<open>None\<close> or the empty string.\<close>

definition no_cookie :: "string option \<Rightarrow> bool" where
  "no_cookie c = (case c of None \<Rightarrow> True | Some v \<Rightarrow> v = [])"

text \<open>
  \<open>admin_password_step\<close>: any message in state PASSWORD; \<open>txt\<close> is its text, absent for
  a message without text.
\<close>

definition admin_password_step ::
  "str_methods \<Rightarrow> transport \<Rightarrow> int \<Rightarrow> login_response \<Rightarrow> int \<Rightarrow> int \<Rightarrow> string option \<Rightarrow> fsm_context \<Rightarrow> sessions
     \<Rightarrow> fsm_context \<times> sessions \<times> event list \<times> error option" where
  "admin_password_step py tr now resp chat mid txt ctx db =
     (let ev0 = [Delete_message chat (VInt mid)];
          data = get_data ctx
      in case lookup data ''login'' of
           Inl e \<Rightarrow> (ctx, db, ev0, Some e)
         | Inr lg \<Rightarrow>
             (case txt of
                None \<Rightarrow> (ctx, db, ev0, Some AttributeError)
              | Some t \<Rightarrow>
                  (let pwd = strip py t;
                       cookie = login resp;
                       ev1 = ev0 @ [Call (Login lg pwd)]
                   in if no_cookie cookie
                      then (let (ctx1, ev) =
                                  send_admin tr chat txt_bad_credentials Login_back_kb ctx
                            in (ctx1, db, ev1 @ ev, None))
                      else (case save_cookie now (case cookie of Some v \<Rightarrow> v | None \<Rightarrow> [])
                                   default_ttl (ensure_table db) of
                              Inl e \<Rightarrow> (ctx, ensure_table db, ev1, Some e)
                            | Inr db1 \<Rightarrow>
                                (let ctx1 = set_state AdminMenu_MAIN ctx;
                                     (ctx2, ev) =
                                       send_admin tr chat txt_admin_panel Admin_main_kb ctx1
                                 in (ctx2, db1, ev1 @ ev, None))))))"

text \<open>\<open>admin_logout\<close>: the remote logout when a cookie is stored, then the purge.\<close>

definition admin_logout ::
  "int \<Rightarrow> int \<Rightarrow> sessions \<Rightarrow> sessions \<times> event list \<times> error option" where
  "admin_logout chat mid db =
     (case get_cookie db of
        Inl e \<Rightarrow> (db, [], Some e)
      | Inr cookie_data \<Rightarrow>
          (let ev = (case cookie_data of
                       Some (cookie, expires) \<Rightarrow> [Call (Logout cookie)]
                     | None \<Rightarrow> [])
           in case clear_sessions db of
                Inl e \<Rightarrow> (db, ev, Some e)
              | Inr db1 \<Rightarrow>
                  (db1, ev @ [Delete_message chat (VInt mid),
                              Answer_callback (Some txt_session_closed) False], None)))"

text \<open>
  \<open>_ensure_admin\<close>: whether the stored session is still good. A stored session whose
  expiry is at or before \<open>now\<close> is purged.
\<close>

definition ensure_admin :: "int \<Rightarrow> sessions \<Rightarrow> bool \<times> sessions \<times> event list \<times> error option" where
  "ensure_admin now db =
     (case get_cookie db of
        Inl e \<Rightarrow> (False, db, [], Some e)
      | Inr None \<Rightarrow> (False, db, [Answer_callback (Some txt_login_again) True], None)
      | Inr (Some (cookie, expires)) \<Rightarrow>
          if expires \<le> now
          then (case clear_sessions db of
                  Inl e \<Rightarrow> (False, db, [], Some e)
                | Inr db1 \<Rightarrow>
                    (False, db1, [Answer_callback (Some txt_session_expired) True], None))
          else (True, db, [], None))"

text \<open>
  \<open>admin_courses\<close> (and \<open>back_courses\<close>, which has the same body): the guard, the cookie,
  the remote list, then state COURSES. \<open>courses\<close> is what \<open>list_courses\<close> returns.
\<close>

definition admin_courses ::
  "transport \<Rightarrow> int \<Rightarrow> jdict list \<Rightarrow> int \<Rightarrow> fsm_context \<Rightarrow> sessions
     \<Rightarrow> fsm_context \<times> sessions \<times> event list \<times> error option" where
  "admin_courses tr now courses chat ctx db =
     (case ensure_admin now db of
        (False, db1, ev, err) \<Rightarrow> (ctx, db1, ev, err)
      | (True, db1, ev, err) \<Rightarrow>
          (case get_cookie db1 of
             Inl e \<Rightarrow> (ctx, db1, ev, Some e)
           | Inr None \<Rightarrow>
               (ctx, db1, ev @ [Answer_callback (Some txt_login_again) True], None)
           | Inr (Some (cookie, expires)) \<Rightarrow>
               (let ctx1 = set_state AdminMenu_COURSES ctx;
                    (ctx2, ev2) = send_admin tr chat txt_courses (Admin_courses_kb courses) ctx1
                in (ctx2, db1, ev @ [Call (List_courses cookie)] @ ev2
                               @ [Answer_callback None False], None))))"

text \<open>\<open>add_course_start\<close>: the guard, then state EDIT and the upload prompt.\<close>

definition add_course_start ::
  "transport \<Rightarrow> int \<Rightarrow> int \<Rightarrow> fsm_context \<Rightarrow> sessions
     \<Rightarrow> fsm_context \<times> sessions \<times> event list \<times> error option" where
  "add_course_start tr now chat ctx db =
     (case ensure_admin now db of
        (False, db1, ev, err) \<Rightarrow> (ctx, db1, ev, err)
      | (True, db1, ev, err) \<Rightarrow>
          (let ctx1 = set_state AdminMenu_EDIT ctx;
               (ctx2, ev2) = send_admin tr chat txt_send_course_file Upload_back_kb ctx1
           in (ctx2, db1, ev @ ev2 @ [Answer_callback None False], None)))"

text \<open>
  \<open>do_course_del\<close>, the confirmed deletion of course \<open>course_id\<close>: it reads the cookie
  and calls the remote delete. \<open>deleted\<close> is what \<open>delete_course\<close> returns. After a
  successful delete the handler lists the courses on the HTTP session it has already
  left; \<open>relisted\<close> is the result of that call, \<open>None\<close> when it raises.
\<close>

definition do_course_del ::
  "transport \<Rightarrow> bool \<Rightarrow> jdict list option \<Rightarrow> int \<Rightarrow> string \<Rightarrow> fsm_context \<Rightarrow> sessions
     \<Rightarrow> fsm_context \<times> sessions \<times> event list \<times> error option" where
  "do_course_del tr deleted relisted chat course_id ctx db =
     (case get_cookie db of
        Inl e \<Rightarrow> (ctx, db, [], Some e)
      | Inr None \<Rightarrow> (ctx, db, [Answer_callback (Some txt_login_again) True], None)
      | Inr (Some (cookie, expires)) \<Rightarrow>
          (let ev = [Call (Delete_course cookie course_id)]
           in if deleted
              then (case relisted of
                      None \<Rightarrow> (ctx, db, ev @ [Call (List_courses cookie)], Some RuntimeError)
                    | Some courses \<Rightarrow>
                        (let ctx1 = set_state AdminMenu_COURSES ctx;
                             (ctx2, ev2) =
                               send_admin tr chat txt_courses (Admin_courses_kb courses) ctx1
                         in (ctx2, db, ev @ [Call (List_courses cookie)] @ ev2
                                       @ [Answer_callback None False], None)))
              else (ctx, db, ev @ [Answer_callback (Some txt_delete_failed) True,
                                   Answer_callback None False], None)))"

definition txt_course_not_found :: string where
  \<comment> \<open>course not found\<close>
  "txt_course_not_found =
    [CHR 0xE2, CHR 0x9D, CHR 0x8C] @ '' '' @ [CHR 0xD0, CHR 0x9A, CHR 0xD1, CHR 0x83,
     CHR 0xD1, CHR 0x80, CHR 0xD1, CHR 0x81] @ '' '' @ [CHR 0xD0, CHR 0xBD, CHR 0xD0,
     CHR 0xB5] @ '' '' @ [CHR 0xD0, CHR 0xBD, CHR 0xD0, CHR 0xB0, CHR 0xD0, CHR 0xB9,
     CHR 0xD0, CHR 0xB4, CHR 0xD0, CHR 0xB5, CHR 0xD0, CHR 0xBD]"

definition txt_need_register :: string where
  \<comment> \<open>you have to register\<close>
  "txt_need_register =
    [CHR 0xE2, CHR 0x9A, CHR 0xA0, CHR 0xEF, CHR 0xB8, CHR 0x8F] @ '' '' @ [CHR 0xD0,
     CHR 0x9D, CHR 0xD0, CHR 0xB5, CHR 0xD0, CHR 0xBE, CHR 0xD0, CHR 0xB1, CHR 0xD1,
     CHR 0x85, CHR 0xD0, CHR 0xBE, CHR 0xD0, CHR 0xB4, CHR 0xD0, CHR 0xB8, CHR 0xD0,
     CHR 0xBC, CHR 0xD0, CHR 0xBE] @ '' '' @ [CHR 0xD0, CHR 0xB7, CHR 0xD0, CHR 0xB0,
     CHR 0xD1, CHR 0x80, CHR 0xD0, CHR 0xB5, CHR 0xD0, CHR 0xB3, CHR 0xD0, CHR 0xB8,
     CHR 0xD1, CHR 0x81, CHR 0xD1, CHR 0x82, CHR 0xD1, CHR 0x80, CHR 0xD0, CHR 0xB8,
     CHR 0xD1, CHR 0x80, CHR 0xD0, CHR 0xBE, CHR 0xD0, CHR 0xB2, CHR 0xD0, CHR 0xB0,
     CHR 0xD1, CHR 0x82, CHR 0xD1, CHR 0x8C, CHR 0xD1, CHR 0x81, CHR 0xD1, CHR 0x8F]"

definition txt_server_error :: string where
  \<comment> \<open>server error\<close>
  "txt_server_error =
    [CHR 0xE2, CHR 0x9D, CHR 0x8C] @ '' '' @ [CHR 0xD0, CHR 0x9E, CHR 0xD1, CHR 0x88,
     CHR 0xD0, CHR 0xB8, CHR 0xD0, CHR 0xB1, CHR 0xD0, CHR 0xBA, CHR 0xD0, CHR 0xB0] @
     '' '' @ [CHR 0xD1, CHR 0x81, CHR 0xD0, CHR 0xB5, CHR 0xD1, CHR 0x80, CHR 0xD0,
     CHR 0xB2, CHR 0xD0, CHR 0xB5, CHR 0xD1, CHR 0x80, CHR 0xD0, CHR 0xB0]"

definition txt_link_failed :: string where
  \<comment> \<open>the course could not be attached\<close>
  "txt_link_failed =
    [CHR 0xE2, CHR 0x9D, CHR 0x8C] @ '' '' @ [CHR 0xD0, CHR 0x9D, CHR 0xD0, CHR 0xB5] @
     '' '' @ [CHR 0xD1, CHR 0x83, CHR 0xD0, CHR 0xB4, CHR 0xD0, CHR 0xB0, CHR 0xD0,
     CHR 0xBB, CHR 0xD0, CHR 0xBE, CHR 0xD1, CHR 0x81, CHR 0xD1, CHR 0x8C] @ '' '' @
     [CHR 0xD0, CHR 0xBF, CHR 0xD1, CHR 0x80, CHR 0xD0, CHR 0xB8, CHR 0xD0, CHR 0xB2,
     CHR 0xD1, CHR 0x8F, CHR 0xD0, CHR 0xB7, CHR 0xD0, CHR 0xB0, CHR 0xD1, CHR 0x82,
     CHR 0xD1, CHR 0x8C] @ '' '' @ [CHR 0xD0, CHR 0xBA, CHR 0xD1, CHR 0x83, CHR 0xD1,
     CHR 0x80, CHR 0xD1, CHR 0x81]"

definition txt_not_for_group :: string where
  \<comment> \<open>this course is not for your group\<close>
  "txt_not_for_group =
    [CHR 0xE2, CHR 0x9A, CHR 0xA0, CHR 0xEF, CHR 0xB8, CHR 0x8F] @ '' '' @ [CHR 0xD0,
     CHR 0xAD, CHR 0xD1, CHR 0x82, CHR 0xD0, CHR 0xBE, CHR 0xD1, CHR 0x82] @ '' '' @
     [CHR 0xD0, CHR 0xBA, CHR 0xD1, CHR 0x83, CHR 0xD1, CHR 0x80, CHR 0xD1, CHR 0x81] @
     '' '' @ [CHR 0xD0, CHR 0xBD, CHR 0xD0, CHR 0xB5] @ '' '' @ [CHR 0xD0, CHR 0xB4,
     CHR 0xD0, CHR 0xBB, CHR 0xD1, CHR 0x8F] @ '' '' @ [CHR 0xD1, CHR 0x82, CHR 0xD0,
     CHR 0xB2, CHR 0xD0, CHR 0xBE, CHR 0xD0, CHR 0xB5, CHR 0xD0, CHR 0xB9] @ '' '' @
     [CHR 0xD0, CHR 0xB3, CHR 0xD1, CHR 0x80, CHR 0xD1, CHR 0x83, CHR 0xD0, CHR 0xBF,
     CHR 0xD0, CHR 0xBF, CHR 0xD1, CHR 0x8B]"

definition txt_no_labs :: string where
  \<comment> \<open>there are no labs for your group\<close>
  "txt_no_labs =
    [CHR 0xF0, CHR 0x9F, CHR 0x93, CHR 0xAD] @ '' '' @ [CHR 0xD0, CHR 0x94, CHR 0xD0,
     CHR 0xBB, CHR 0xD1, CHR 0x8F] @ '' '' @ [CHR 0xD1, CHR 0x82, CHR 0xD0, CHR 0xB2,
     CHR 0xD0, CHR 0xBE, CHR 0xD0, CHR 0xB5, CHR 0xD0, CHR 0xB9] @ '' '' @ [CHR 0xD0,
     CHR 0xB3, CHR 0xD1, CHR 0x80, CHR 0xD1, CHR 0x83, CHR 0xD0, CHR 0xBF, CHR 0xD0,
     CHR 0xBF, CHR 0xD1, CHR 0x8B] @ '' '' @ [CHR 0xD0, CHR 0xBB, CHR 0xD0, CHR 0xB0,
     CHR 0xD0, CHR 0xB1, CHR 0xD0, CHR 0xBE, CHR 0xD1, CHR 0x80, CHR 0xD0, CHR 0xB0,
     CHR 0xD1, CHR 0x82, CHR 0xD0, CHR 0xBE, CHR 0xD1, CHR 0x80, CHR 0xD0, CHR 0xBD,
     CHR 0xD1, CHR 0x8B, CHR 0xD1, CHR 0x85] @ '' '' @ [CHR 0xD0, CHR 0xBD, CHR 0xD0,
     CHR 0xB5, CHR 0xD1, CHR 0x82]"

definition word_unknown :: string where
  \<comment> \<open>unknown\<close>
  "word_unknown =
    [CHR 0xD0, CHR 0x9D, CHR 0xD0, CHR 0xB5, CHR 0xD0, CHR 0xB8, CHR 0xD0, CHR 0xB7,
     CHR 0xD0, CHR 0xB2, CHR 0xD0, CHR 0xB5, CHR 0xD1, CHR 0x81, CHR 0xD1, CHR 0x82,
     CHR 0xD0, CHR 0xBD, CHR 0xD0, CHR 0xBE]"

definition word_not_given :: string where
  \<comment> \<open>not given\<close>
  "word_not_given =
    [CHR 0xD0, CHR 0x9D, CHR 0xD0, CHR 0xB5] @ '' '' @ [CHR 0xD1, CHR 0x83, CHR 0xD0,
     CHR 0xBA, CHR 0xD0, CHR 0xB0, CHR 0xD0, CHR 0xB7, CHR 0xD0, CHR 0xB0, CHR 0xD0,
     CHR 0xBD]"

definition course_head :: string where
  \<comment> \<open>opening of the course line\<close>
  "course_head =
    ''<b>'' @ [CHR 0xF0, CHR 0x9F, CHR 0x93, CHR 0x9A] @ '' ''"

definition github_line :: string where
  \<comment> \<open>the GitHub line up to the link\<close>
  "github_line =
    [CHR 0xF0, CHR 0x9F, CHR 0x94, CHR 0x97] @ '' GitHub: <a href='' @ [CHR 0x22]"

definition sheet_line :: string where
  \<comment> \<open>the spreadsheet line up to the link\<close>
  "sheet_line =
    [CHR 0xF0, CHR 0x9F, CHR 0x93, CHR 0x8A] @ '' '' @ [CHR 0xD0, CHR 0xA2, CHR 0xD0,
     CHR 0xB0, CHR 0xD0, CHR 0xB1, CHR 0xD0, CHR 0xBB, CHR 0xD0, CHR 0xB8, CHR 0xD1,
     CHR 0x86, CHR 0xD0, CHR 0xB0] @ '': <a href='' @ [CHR 0x22]"

definition labs_head :: string where
  \<comment> \<open>opening of the labs line: group\<close>
  "labs_head =
    ''<b>'' @ [CHR 0xF0, CHR 0x9F, CHR 0xA7, CHR 0xAA] @ '' '' @ [CHR 0xD0, CHR 0x93,
     CHR 0xD1, CHR 0x80, CHR 0xD1, CHR 0x83, CHR 0xD0, CHR 0xBF, CHR 0xD0, CHR 0xBF,
     CHR 0xD0, CHR 0xB0] @ '' ''"

definition labs_tail :: string where
  \<comment> \<open>end of the labs line: labs\<close>
  "labs_tail =
    '' '' @ [CHR 0xD0, CHR 0xBB, CHR 0xD0, CHR 0xB0, CHR 0xD0, CHR 0xB1, CHR 0xD0,
     CHR 0xBE, CHR 0xD1, CHR 0x80, CHR 0xD0, CHR 0xB0, CHR 0xD1, CHR 0x82, CHR 0xD0,
     CHR 0xBE, CHR 0xD1, CHR 0x80, CHR 0xD0, CHR 0xBD, CHR 0xD1, CHR 0x8B, CHR 0xD0,
     CHR 0xB5] @ ''</b>''"

definition txt_register_first :: string where
  \<comment> \<open>register first\<close>
  "txt_register_first =
    [CHR 0xE2, CHR 0x9A, CHR 0xA0, CHR 0xEF, CHR 0xB8, CHR 0x8F] @ '' '' @ [CHR 0xD0,
     CHR 0xA1, CHR 0xD0, CHR 0xBD, CHR 0xD0, CHR 0xB0, CHR 0xD1, CHR 0x87, CHR 0xD0,
     CHR 0xB0, CHR 0xD0, CHR 0xBB, CHR 0xD0, CHR 0xB0] @ '' '' @ [CHR 0xD0, CHR 0xB7,
     CHR 0xD0, CHR 0xB0, CHR 0xD1, CHR 0x80, CHR 0xD0, CHR 0xB5, CHR 0xD0, CHR 0xB3,
     CHR 0xD0, CHR 0xB8, CHR 0xD1, CHR 0x81, CHR 0xD1, CHR 0x82, CHR 0xD1, CHR 0x80,
     CHR 0xD0, CHR 0xB8, CHR 0xD1, CHR 0x80, CHR 0xD1, CHR 0x83, CHR 0xD0, CHR 0xB9,
     CHR 0xD1, CHR 0x81, CHR 0xD1, CHR 0x8F]"

definition txt_checking :: string where
  \<comment> \<open>the check has been started\<close>
  "txt_checking =
    [CHR 0xE2, CHR 0x8F, CHR 0xB3] @ '' '' @ [CHR 0xD0, CHR 0x9F, CHR 0xD1, CHR 0x80,
     CHR 0xD0, CHR 0xBE, CHR 0xD0, CHR 0xB2, CHR 0xD0, CHR 0xB5, CHR 0xD1, CHR 0x80,
     CHR 0xD0, CHR 0xBA, CHR 0xD0, CHR 0xB0] @ '' '' @ [CHR 0xD0, CHR 0xB7, CHR 0xD0,
     CHR 0xB0, CHR 0xD0, CHR 0xBF, CHR 0xD1, CHR 0x83, CHR 0xD1, CHR 0x89, CHR 0xD0,
     CHR 0xB5, CHR 0xD0, CHR 0xBD, CHR 0xD0, CHR 0xB0, CHR 0xE2, CHR 0x80, CHR 0xA6]"

definition word_result :: string where
  \<comment> \<open>result\<close>
  "word_result =
    [CHR 0xD0, CHR 0xA0, CHR 0xD0, CHR 0xB5, CHR 0xD0, CHR 0xB7, CHR 0xD1, CHR 0x83,
     CHR 0xD0, CHR 0xBB, CHR 0xD1, CHR 0x8C, CHR 0xD1, CHR 0x82, CHR 0xD0, CHR 0xB0,
     CHR 0xD1, CHR 0x82]"

definition word_tests :: string where
  \<comment> \<open>tests\<close>
  "word_tests =
    [CHR 0xD0, CHR 0xA2, CHR 0xD0, CHR 0xB5, CHR 0xD1, CHR 0x81, CHR 0xD1, CHR 0x82,
     CHR 0xD1, CHR 0x8B]"

definition cross :: string where
  \<comment> \<open>the failure mark\<close>
  "cross =
    [CHR 0xE2, CHR 0x9C, CHR 0x97]"

definition txt_check_failed :: string where
  \<comment> \<open>the check could not be started\<close>
  "txt_check_failed =
    [CHR 0xE2, CHR 0x9D, CHR 0x8C] @ '' '' @ [CHR 0xD0, CHR 0x9D, CHR 0xD0, CHR 0xB5] @
     '' '' @ [CHR 0xD1, CHR 0x83, CHR 0xD0, CHR 0xB4, CHR 0xD0, CHR 0xB0, CHR 0xD0,
     CHR 0xBB, CHR 0xD0, CHR 0xBE, CHR 0xD1, CHR 0x81, CHR 0xD1, CHR 0x8C] @ '' '' @
     [CHR 0xD0, CHR 0xB7, CHR 0xD0, CHR 0xB0, CHR 0xD0, CHR 0xBF, CHR 0xD1, CHR 0x83,
     CHR 0xD1, CHR 0x81, CHR 0xD1, CHR 0x82, CHR 0xD0, CHR 0xB8, CHR 0xD1, CHR 0x82,
     CHR 0xD1, CHR 0x8C] @ '' '' @ [CHR 0xD0, CHR 0xBF, CHR 0xD1, CHR 0x80, CHR 0xD0,
     CHR 0xBE, CHR 0xD0, CHR 0xB2, CHR 0xD0, CHR 0xB5, CHR 0xD1, CHR 0x80, CHR 0xD0,
     CHR 0xBA, CHR 0xD1, CHR 0x83]"

definition txt_no_answer :: string where
  \<comment> \<open>no answer, the check has been started\<close>
  "txt_no_answer =
    [CHR 0xD0, CHR 0x9D, CHR 0xD0, CHR 0xB5, CHR 0xD1, CHR 0x82] @ '' '' @ [CHR 0xD0,
     CHR 0xBE, CHR 0xD1, CHR 0x82, CHR 0xD0, CHR 0xB2, CHR 0xD0, CHR 0xB5, CHR 0xD1,
     CHR 0x82, CHR 0xD0, CHR 0xB0] @ '', '' @ [CHR 0xD0, CHR 0xBF, CHR 0xD1, CHR 0x80,
     CHR 0xD0, CHR 0xBE, CHR 0xD0, CHR 0xB2, CHR 0xD0, CHR 0xB5, CHR 0xD1, CHR 0x80,
     CHR 0xD0, CHR 0xBA, CHR 0xD0, CHR 0xB0] @ '' '' @ [CHR 0xD0, CHR 0xB7, CHR 0xD0,
     CHR 0xB0, CHR 0xD0, CHR 0xBF, CHR 0xD1, CHR 0x83, CHR 0xD1, CHR 0x89, CHR 0xD0,
     CHR 0xB5, CHR 0xD0, CHR 0xBD, CHR 0xD0, CHR 0xB0] @ '' '' @ [CHR 0xE2, CHR 0x8F,
     CHR 0xB3]"

section \<open>The remote gateway (services/api.py)\<close>

text \<open>
  What one HTTP request can come to: a response with status 200 and its JSON body, a
  response with another status and its text, a dropped connection
  (\<open>ServerDisconnectedError\<close>), or any other exception.
\<close>

datatype http = Http_200 jdict | Http_status int string | Disconnected | Failed

definition dict_get :: "jdict \<Rightarrow> string \<Rightarrow> jval option" where
  "dict_get d k = map_of d k"

definition error_reply :: "int \<Rightarrow> string \<Rightarrow> jdict" where
  "error_reply code txt =
     [(''status'', JStr ''error''), (''code'', JInt code), (''message'', JStr txt)]"

definition register_student :: "http \<Rightarrow> jdict option" where
  "register_student r =
     (case r of
        Http_200 body \<Rightarrow> Some body
      | Http_status code txt \<Rightarrow> Some (error_reply code txt)
      | Disconnected \<Rightarrow> None
      | Failed \<Rightarrow> None)"

definition grade_lab :: "http \<Rightarrow> jdict option" where
  "grade_lab r =
     (case r of
        Http_200 body \<Rightarrow> Some body
      | Http_status code txt \<Rightarrow> Some (error_reply code txt)
      | Disconnected \<Rightarrow> Some [(''status'', JStr ''pending''), (''message'', JStr txt_no_answer)]
      | Failed \<Rightarrow> None)"

record course_dto =
  dto_id :: int
  dto_name :: string
  dto_semester :: string
  dto_logo :: "string option"
  dto_email :: "string option"

section \<open>The student handlers of courses and labs (handlers/common.py)\<close>

text \<open>\<open>s.split("_", n)\<close>: at most \<open>n\<close> cuts, from the left.\<close>

fun split_underscore :: "nat \<Rightarrow> string \<Rightarrow> string list" where
  "split_underscore n [] = [[]]"
| "split_underscore n (c # cs) =
     (if c = CHR ''_'' \<and> 0 < n then [] # split_underscore (n - 1) cs
      else (case split_underscore n cs of
              w # ws \<Rightarrow> (c # w) # ws
            | [] \<Rightarrow> [[c]]))"

text \<open>
  The text above the lab list. \<open>info\<close> is what \<open>get_course_info\<close> returns: the course's
  string attributes, or \<open>None\<close>.
\<close>

definition get_or :: "(string \<times> string) list \<Rightarrow> string \<Rightarrow> string \<Rightarrow> string" where
  "get_or d k dflt = (case map_of d k of Some v \<Rightarrow> v | None \<Rightarrow> dflt)"

definition labs_line :: "string \<Rightarrow> string" where
  "labs_line grp = labs_head @ grp @ labs_tail"

definition course_text :: "(string \<times> string) list option \<Rightarrow> string \<Rightarrow> string" where
  "course_text info grp =
     (case info of
        None \<Rightarrow> labs_line grp
      | Some d \<Rightarrow>
          if d = [] then labs_line grp
          else (let name = get_or d ''name'' word_unknown;
                    semester = get_or d ''semester'' word_unknown;
                    github_org = get_or d ''github-organization'' word_not_given;
                    spreadsheet_id = get_or d ''google-spreadsheet'' word_not_given;
                    github_link = (if github_org \<noteq> word_not_given
                                   then ''https://github.com/'' @ github_org else word_not_given);
                    spreadsheet_link = (if spreadsheet_id \<noteq> word_not_given
                                        then ''https://docs.google.com/spreadsheets/d/'' @ spreadsheet_id
                                        else word_not_given)
                in course_head @ name @ '' ('' @ semester @ '')</b>'' @ [CHR 0x0A]
                   @ github_line @ github_link @ [CHR 0x22] @ ''>'' @ github_org @ ''</a>'' @ [CHR 0x0A]
                   @ sheet_line @ spreadsheet_link @ [CHR 0x22] @ ''>'' @ spreadsheet_id
                   @ ''</a>'' @ [CHR 0x0A, CHR 0x0A]
                   @ labs_line grp))"

text \<open>
  \<open>course_selected\<close>, for callback data that starts with \<open>course_\<close>. \<open>courses_all\<close>,
  \<open>groups\<close>, \<open>labs\<close> and \<open>info\<close> are what the gateway's read calls return, \<open>reg\<close> is the
  outcome of the request the register call sends.
\<close>

record remote =
  rm_courses :: "course_dto list"
  rm_register :: http
  rm_groups :: "string list"
  rm_labs :: "string list"
  rm_info :: "(string \<times> string) list option"

definition registered_status :: "jval option \<Rightarrow> bool" where
  "registered_status s = (s = Some (JStr ''registered'') \<or> s = Some (JStr ''already_registered''))"

text \<open>The part of \<open>course_selected\<close> under \<open>if registered\<close>: groups, labs, the lab list.\<close>

definition show_labs ::
  "remote \<Rightarrow> int \<Rightarrow> int \<Rightarrow> string \<Rightarrow> student \<Rightarrow> event list" where
  "show_labs rm chat mid course_id st =
     (let ev1 = [Call (Get_groups course_id)] in
      if st_group_code st \<notin> set (rm_groups rm)
      then ev1 @ [Answer_callback (Some txt_not_for_group) True]
      else (let ev2 = ev1 @ [Call (Get_labs course_id (st_group_code st))] in
            if rm_labs rm = []
            then ev2 @ [Answer_callback (Some txt_no_labs) True]
            else ev2 @ [Call (Get_course_info course_id),
                        Delete_message chat (VInt mid),
                        Answer_message chat (course_text (rm_info rm) (st_group_code st))
                          (Labs_kb (rm_labs rm) course_id),
                        Answer_callback None False]))"

definition course_selected ::
  "remote \<Rightarrow> int \<Rightarrow> int \<Rightarrow> int \<Rightarrow> string \<Rightarrow> students_table
     \<Rightarrow> students_table \<times> event list \<times> error option" where
  "course_selected rm now chat mid cb_data t =
     (case split_underscore 1 cb_data of
        [p, course_id] \<Rightarrow>
          (let ev0 = [Call Get_courses] in
           case find (\<lambda>c. str_int (dto_id c) = course_id) (rm_courses rm) of
             None \<Rightarrow> (t, ev0 @ [Answer_callback (Some txt_course_not_found) True], None)
           | Some course \<Rightarrow>
               (case get_by_chat chat t of
                  None \<Rightarrow> (t, ev0 @ [Answer_callback (Some txt_need_register) True], None)
                | Some st \<Rightarrow>
                    if list_ex (\<lambda>cr. cr_name cr = dto_name course
                                      \<and> cr_semester cr = dto_semester course) (st_courses st)
                    then (t, ev0 @ show_labs rm chat mid course_id st, None)
                    else (let ev1 = ev0 @ [Call (Register_student course_id (st_group_code st)
                                             (st_name st, st_surname st, st_patronymic st,
                                              st_github st))] in
                          case register_student (rm_register rm) of
                            None \<Rightarrow> (t, ev1 @ [Answer_callback (Some txt_server_error) True], None)
                          | Some result \<Rightarrow>
                              if result = []
                              then (t, ev1 @ [Answer_callback (Some txt_server_error) True], None)
                              else if \<not> registered_status (dict_get result ''status'')
                              then (case dict_get result ''message'' of
                                      None \<Rightarrow>
                                        (t, ev1 @ [Answer_callback (Some txt_link_failed) True], None)
                                    | Some (JStr m) \<Rightarrow>
                                        (t, ev1 @ [Answer_callback (Some m) True], None)
                                    | Some other \<Rightarrow> (t, ev1, Some ValidationError))
                              else (let st1 = st\<lparr>st_courses := st_courses st @
                                                  [\<lparr>cr_name = dto_name course,
                                                    cr_semester = dto_semester course\<rparr>]\<rparr>
                                    in case save now st1 t of
                                         Inl e \<Rightarrow> (t, ev1, Some e)
                                       | Inr t1 \<Rightarrow>
                                           (t1, ev1 @ show_labs rm chat mid course_id st1, None)))))
      | parts \<Rightarrow> (t, [], Some IndexError))"

text \<open>
  The grading poll of \<open>lab_selected\<close>. The result text is an f-string; \<open>py_repr\<close> stands
  for Python's rendering of a list inside it. \<open>bold\<close> is aiogram's Markdown bold, which
  wraps its text in asterisks (the two words it is given here hold nothing it would
  escape), and \<open>quote_html\<close> is \<open>html.escape\<close>, which wants a string.
\<close>

definition bold :: "string \<Rightarrow> string" where
  "bold s = ''*'' @ s @ ''*''"

definition escape_char :: "char \<Rightarrow> string" where
  "escape_char c =
     (if c = CHR ''&'' then ''&amp;''
      else if c = CHR ''<'' then ''&lt;''
      else if c = CHR ''>'' then ''&gt;''
      else if c = CHR 0x22 then ''&quot;''
      else if c = CHR 0x27 then ''&#x27;''
      else [c])"

definition quote_html :: "jval \<Rightarrow> error + string" where
  "quote_html v = (case v of JStr s \<Rightarrow> Inr (concat (map escape_char s))
                   | JInt i \<Rightarrow> Inl AttributeError
                   | JList xs \<Rightarrow> Inl AttributeError)"

fun join_lines :: "string list \<Rightarrow> string" where
  "join_lines [] = []"
| "join_lines [x] = x"
| "join_lines (x # y # ys) = x @ [CHR 0x0A] @ join_lines (y # ys)"

text \<open>
  The characters of a string, each by its UTF-8 bytes: a lead byte and the continuation
  bytes (\<open>0x80\<close> to \<open>0xBF\<close>) that follow it.
\<close>

definition is_continuation :: "char \<Rightarrow> bool" where
  "is_continuation c = (let n = (of_char c :: nat) in 128 \<le> n \<and> n < 192)"

function characters :: "string \<Rightarrow> string list" where
  "characters [] = []"
| "characters (c # cs) =
     (c # takeWhile is_continuation cs) # characters (dropWhile is_continuation cs)"
  by pat_completeness auto
termination
  by (relation "measure length") (auto simp: le_imp_less_Suc length_dropWhile_le)

text \<open>\<open>"\\n".join(v)\<close>: over the items of a list, or over the characters of a string.\<close>

definition join_checks :: "jval \<Rightarrow> error + string" where
  "join_checks v = (case v of JList xs \<Rightarrow> Inr (join_lines xs)
                    | JStr s \<Rightarrow> Inr (join_lines (characters s))
                    | JInt i \<Rightarrow> Inl TypeError)"

definition format_value :: "(string list \<Rightarrow> string) \<Rightarrow> jval \<Rightarrow> string" where
  "format_value py_repr v = (case v of JStr s \<Rightarrow> s | JInt i \<Rightarrow> str_int i | JList xs \<Rightarrow> py_repr xs)"

definition get_default :: "jdict \<Rightarrow> string \<Rightarrow> jval \<Rightarrow> jval" where
  "get_default d k dflt = (case dict_get d k of Some v \<Rightarrow> v | None \<Rightarrow> dflt)"

definition result_text :: "(string list \<Rightarrow> string) \<Rightarrow> jdict \<Rightarrow> error + string" where
  "result_text py_repr res =
     (let symbol = get_default res ''result'' (JStr cross);
          msg = get_default res ''message'' (JStr []);
          passed = get_default res ''passed'' (JStr [])
      in bind (join_checks (get_default res ''checks'' (JList []))) (\<lambda>checks.
         bind (quote_html msg) (\<lambda>quoted.
           Inr (bold word_result @ '': '' @ format_value py_repr symbol @ [CHR 0x0A]
                @ quoted @ [CHR 0x0A, CHR 0x0A]
                @ bold word_tests @ '': '' @ format_value py_repr passed @ [CHR 0x0A, CHR 0x0A]
                @ checks))))"

text \<open>
  One turn of the \<open>while True\<close> loop of \<open>poll\<close>: the events of the turn, the exception
  that ends the task if there is one, and whether the loop goes round again.
\<close>

definition poll_turn ::
  "(string list \<Rightarrow> string) \<Rightarrow> int \<Rightarrow> int \<Rightarrow> api_call \<Rightarrow> http \<Rightarrow> event list \<times> error option \<times> bool" where
  "poll_turn py_repr chat wait_id call r =
     (case grade_lab r of
        None \<Rightarrow> ([Call call, Edit_text chat wait_id txt_server_error Home_kb], None, False)
      | Some res \<Rightarrow>
          if res = []
          then ([Call call, Edit_text chat wait_id txt_server_error Home_kb], None, False)
          else if dict_get res ''status'' = Some (JStr ''pending'')
          then ([Call call, Sleep 15], None, True)
          else if dict_get res ''status'' = Some (JStr ''updated'')
          then (case result_text py_repr res of
                  Inl e \<Rightarrow> ([Call call], Some e, False)
                | Inr txt \<Rightarrow> ([Call call, Edit_text chat wait_id txt Home_kb], None, False))
          else (case quote_html (get_default res ''message'' (JStr txt_check_failed)) of
                  Inl e \<Rightarrow> ([Call call], Some e, False)
                | Inr txt \<Rightarrow> ([Call call, Edit_text chat wait_id txt Home_kb], None, False)))"

text \<open>
  The loop over the outcomes the successive requests come to. It has no bound of its
  own: when the listed outcomes are used up and the loop would go round again, the
  result is \<open>None\<close> (still polling).
\<close>

fun poll ::
  "(string list \<Rightarrow> string) \<Rightarrow> int \<Rightarrow> int \<Rightarrow> api_call \<Rightarrow> http list
     \<Rightarrow> (event list \<times> error option) option" where
  "poll py_repr chat wait_id call [] = None"
| "poll py_repr chat wait_id call (r # rs) =
     (case poll_turn py_repr chat wait_id call r of
        (ev, err, True) \<Rightarrow>
          map_option (\<lambda>(ev', err'). (ev @ ev', err')) (poll py_repr chat wait_id call rs)
      | (ev, err, False) \<Rightarrow> Some (ev, err))"

text \<open>
  \<open>lab_selected\<close>: the events of the handler itself, and the poll task it starts, given
  by the request the task repeats. \<open>wait_id\<close> is the id of the placeholder message.
\<close>

definition lab_selected ::
  "int \<Rightarrow> int \<Rightarrow> int \<Rightarrow> string \<Rightarrow> students_table \<Rightarrow> event list \<times> error option \<times> api_call option" where
  "lab_selected chat mid wait_id cb_data t =
     (case split_underscore 2 cb_data of
        [p, course_id, lab_id] \<Rightarrow>
          (case get_by_chat chat t of
             None \<Rightarrow> ([Answer_callback (Some txt_register_first) True], None, None)
           | Some st \<Rightarrow>
               ([Delete_message chat (VInt mid),
                 Send_message chat txt_checking No_kb (Some wait_id),
                 Answer_callback None False],
                None,
                Some (Grade_lab course_id (st_group_code st) lab_id (st_github st))))
      | parts \<Rightarrow> ([], Some ValueError, None))"

text \<open>
  \<open>lab_selected\<close> and then the task it has started, on the outcomes the task's requests
  come to: the events of the handler, then those of the task. (The task first runs when
  the handler awaits its last call, the answer to the callback.)
\<close>

definition lab_check ::
  "(string list \<Rightarrow> string) \<Rightarrow> int \<Rightarrow> int \<Rightarrow> int \<Rightarrow> string \<Rightarrow> students_table \<Rightarrow> http list
     \<Rightarrow> (event list \<times> error option) option" where
  "lab_check py_repr chat mid wait_id cb_data t outcomes =
     (case lab_selected chat mid wait_id cb_data t of
        (fg, err, None) \<Rightarrow> Some (fg, err)
      | (fg, err, Some call) \<Rightarrow>
          map_option (\<lambda>(ev, err'). (fg @ ev, err'))
            (poll py_repr chat wait_id call outcomes))"

section \<open>Properties of the registration wizard\<close>

lemma send_student_state: "fsm_state (fst (send_student tr chat txt kb ctx)) = fsm_state ctx"
  by (simp add: send_student_def update_data_def get_data_def Let_def split: option.splits)

lemma send_student_data:
  "k \<noteq> BOT_MSG_KEY \<Longrightarrow> fsm_data (fst (send_student tr chat txt kb ctx)) k = fsm_data ctx k"
  by (simp add: send_student_def update_data_def get_data_def Let_def split: option.splits)

text \<open>Merging a bag into itself changes nothing, whatever was popped from the copy.\<close>

lemma pop_merge: "update_data ((get_data ctx)(k := None)) ctx = ctx"
  by (simp add: update_data_def get_data_def map_add_def fun_eq_iff split: option.splits)

lemma PREV_simps:
  "PREV Reg_SURNAME = None" "PREV Reg_NAME = Some Reg_SURNAME"
  "PREV Reg_PATRONYMIC = Some Reg_NAME" "PREV Reg_GROUP = Some Reg_PATRONYMIC"
  "PREV Reg_GITHUB = Some Reg_GROUP"
  by (simp_all add: PREV_def ORDER_def)

lemma index_of_ORDER_Suc:
  "index_of cur ORDER = Some (Suc i) \<Longrightarrow>
     cur \<in> set ORDER \<and> PREV cur = Some (ORDER ! i) \<and> PROMPTS (ORDER ! i) \<noteq> None"
  by (cases cur) (auto simp: ORDER_def PREV_def PROMPTS_def split: if_splits)

lemma reg_back_from_surname:
  "get_state ctx = Some Reg_SURNAME \<Longrightarrow>
   reg_back tr chat mid ctx = (ctx, [Answer_callback None False], None)"
  by (simp add: reg_back_def ORDER_def PREV_simps)

lemma reg_back_step:
  assumes "get_state ctx = Some cur" and "index_of cur ORDER = Some (Suc i)"
  shows "\<exists>p. PROMPTS (ORDER ! i) = Some p \<and>
           reg_back tr chat mid ctx =
             (fst (send_student tr chat p (Nav_kb (ORDER ! i \<noteq> Reg_SURNAME))
                     (set_state (ORDER ! i) ctx)),
              [Delete_message chat (VInt mid)]
                @ snd (send_student tr chat p (Nav_kb (ORDER ! i \<noteq> Reg_SURNAME))
                         (set_state (ORDER ! i) ctx))
                @ [Answer_callback None False],
              None)"
proof -
  from index_of_ORDER_Suc [OF assms(2)]
  obtain p where mem: "cur \<in> set ORDER" and prev: "PREV cur = Some (ORDER ! i)"
    and p: "PROMPTS (ORDER ! i) = Some p"
    by auto
  show ?thesis
    using assms(1) mem prev p
    by (simp add: reg_back_def pop_merge Let_def split_beta)
qed

text \<open>
  C7. From the state at position \<open>i + 1\<close> of \<open>ORDER\<close>, \<open>reg_back\<close> ends without an error
  in the state at position \<open>i\<close>, and every key of the bag but the message-id key keeps
  its value, whatever the transport does. From SURNAME it only answers the callback: the
  session (state and bag) is returned as it was.
\<close>

theorem reg_back_lands_on_predecessor:
  assumes "get_state ctx = Some cur"
  shows "(cur = Reg_SURNAME \<longrightarrow>
            reg_back tr chat mid ctx = (ctx, [Answer_callback None False], None))
       \<and> (\<forall>i. index_of cur ORDER = Some (Suc i) \<longrightarrow>
            snd (snd (reg_back tr chat mid ctx)) = None
          \<and> get_state (fst (reg_back tr chat mid ctx)) = Some (ORDER ! i)
          \<and> (\<forall>k. k \<noteq> BOT_MSG_KEY \<longrightarrow>
                get_data (fst (reg_back tr chat mid ctx)) k = get_data ctx k))"
proof (intro conjI impI allI)
  assume "cur = Reg_SURNAME"
  with assms show "reg_back tr chat mid ctx = (ctx, [Answer_callback None False], None)"
    by (simp add: reg_back_from_surname)
next
  fix i assume i: "index_of cur ORDER = Some (Suc i)"
  from reg_back_step [OF assms i, of tr chat mid]
  obtain p where r: "reg_back tr chat mid ctx =
             (fst (send_student tr chat p (Nav_kb (ORDER ! i \<noteq> Reg_SURNAME))
                     (set_state (ORDER ! i) ctx)),
              [Delete_message chat (VInt mid)]
                @ snd (send_student tr chat p (Nav_kb (ORDER ! i \<noteq> Reg_SURNAME))
                         (set_state (ORDER ! i) ctx))
                @ [Answer_callback None False],
              None)"
    by blast
  show "snd (snd (reg_back tr chat mid ctx)) = None" by (simp add: r)
  show "get_state (fst (reg_back tr chat mid ctx)) = Some (ORDER ! i)"
    by (simp add: r get_state_def send_student_state set_state_def)
  fix k assume "k \<noteq> BOT_MSG_KEY"
  then show "get_data (fst (reg_back tr chat mid ctx)) k = get_data ctx k"
    by (simp add: r get_data_def send_student_data set_state_def)
qed

text \<open>
  The theorem at a session in GROUP that holds three fields and a tracked message, with a
  transport whose delete fails: back lands on PATRONYMIC and the surname is still there.
\<close>

theorem reg_back_lands_on_predecessor_witness:
  "get_state (fst (reg_back
      \<lparr>delete_outcome = Telegram_error, send_outcome = Some 41, fallback_outcome = None\<rparr>
      7 40
      \<lparr>fsm_state = Some Reg_GROUP,
       fsm_data = [''Reg:SURNAME'' \<mapsto> VStr ''Ivanov'', ''Reg:NAME'' \<mapsto> VStr ''Ivan'',
                   ''Reg:PATRONYMIC'' \<mapsto> VStr ''-'', ''__bot_msg_id'' \<mapsto> VInt 40]\<rparr>))
     = Some Reg_PATRONYMIC
   \<and> get_data (fst (reg_back
      \<lparr>delete_outcome = Telegram_error, send_outcome = Some 41, fallback_outcome = None\<rparr>
      7 40
      \<lparr>fsm_state = Some Reg_GROUP,
       fsm_data = [''Reg:SURNAME'' \<mapsto> VStr ''Ivanov'', ''Reg:NAME'' \<mapsto> VStr ''Ivan'',
                   ''Reg:PATRONYMIC'' \<mapsto> VStr ''-'', ''__bot_msg_id'' \<mapsto> VInt 40]\<rparr>))
       ''Reg:SURNAME'' = Some (VStr ''Ivanov'')"
  using reg_back_lands_on_predecessor [of
      "\<lparr>fsm_state = Some Reg_GROUP,
        fsm_data = [''Reg:SURNAME'' \<mapsto> VStr ''Ivanov'', ''Reg:NAME'' \<mapsto> VStr ''Ivan'',
                    ''Reg:PATRONYMIC'' \<mapsto> VStr ''-'', ''__bot_msg_id'' \<mapsto> VInt 40]\<rparr>"
      Reg_GROUP
      "\<lparr>delete_outcome = Telegram_error, send_outcome = Some 41, fallback_outcome = None\<rparr>"
      7 40]
  by (simp add: get_state_def get_data_def ORDER_def BOT_MSG_KEY_def)

lemma bot_key_not_state: "state_name s \<noteq> BOT_MSG_KEY"
  by (cases s) (simp_all add: BOT_MSG_KEY_def)

lemma state_name_inj: "state_name a = state_name b \<longleftrightarrow> a = b"
  by (cases a; cases b) simp_all

lemma send_student_sends:
  "\<exists>r. Send_message chat txt kb r \<in> set (snd (send_student tr chat txt kb ctx))"
  by (auto simp: send_student_def Let_def split: option.splits)

lemma send_student_only:
  "Send_message ch t k r \<in> set (snd (send_student tr chat txt kb ctx)) \<Longrightarrow> t = txt \<and> k = kb"
  by (auto simp: send_student_def Let_def split: option.splits if_splits)

lemma index_of_ORDER_next:
  "index_of cur ORDER = Some i \<Longrightarrow> cur \<noteq> Reg_GITHUB \<Longrightarrow> PROMPTS (ORDER ! Suc i) \<noteq> None"
  by (cases cur) (auto simp: ORDER_def PROMPTS_def split: if_splits)

lemma reg_steps_advance:
  assumes st: "get_state c = Some cur" and ix: "index_of cur ORDER = Some i"
    and ng: "cur \<noteq> Reg_GITHUB" and run: "reg_steps py tr chat m r c = (c', e, x)"
  shows "x = None \<and> get_state c' = Some (ORDER ! Suc i)
       \<and> get_data c' (state_name cur) = Some (VStr (step_text py cur r))
       \<and> (\<forall>k. k \<noteq> BOT_MSG_KEY \<and> k \<noteq> state_name cur \<longrightarrow> get_data c' k = get_data c k)"
proof -
  from index_of_ORDER_next [OF ix ng] obtain p where p: "PROMPTS (ORDER ! Suc i) = Some p"
    by auto
  let ?c1 = "update_data ((get_data c)(state_name cur \<mapsto> VStr (step_text py cur r))) c"
  let ?s = "send_student tr chat p (Nav_kb True) (set_state (ORDER ! Suc i) ?c1)"
  have "reg_steps py tr chat m r c = (fst ?s, [Delete_message chat (VInt m)] @ snd ?s, None)"
    using st ix ng p by (simp add: reg_steps_def Let_def split_beta)
  with run have c': "c' = fst ?s" and x: "x = None" by simp_all
  have "get_data c' (state_name cur) = Some (VStr (step_text py cur r))"
    using bot_key_not_state [of cur]
    by (simp add: c' get_data_def send_student_data set_state_def update_data_def)
  moreover have "\<forall>k. k \<noteq> BOT_MSG_KEY \<and> k \<noteq> state_name cur \<longrightarrow> get_data c' k = get_data c k"
    by (simp add: c' get_data_def send_student_data set_state_def update_data_def map_add_def
          split: option.splits)
  moreover have "get_state c' = Some (ORDER ! Suc i)"
    by (simp add: c' get_state_def send_student_state set_state_def update_data_def)
  ultimately show ?thesis using x by simp
qed

lemma summary_known:
  assumes "d ''Reg:SURNAME'' = Some (VStr a)" "d ''Reg:NAME'' = Some (VStr b)"
    "d ''Reg:PATRONYMIC'' = Some (VStr c)" "d ''Reg:GROUP'' = Some (VStr g)"
    "d ''Reg:GITHUB'' = Some (VStr h)"
  shows "summary d = Inr (''<b>'' @ a @ '' '' @ b @ '' '' @ c @ ''</b>''
             @ label_group @ g @ label_github @ h)"
  using assms by (simp add: summary_def bind_def lookup_def)

lemma build_student_known:
  assumes "d ''Reg:SURNAME'' = Some (VStr a)" "d ''Reg:NAME'' = Some (VStr b)"
    "d ''Reg:PATRONYMIC'' = Some (VStr c)" "d ''Reg:GROUP'' = Some (VStr g)"
    "d ''Reg:GITHUB'' = Some (VStr h)"
  shows "build_student chat d =
     Inr \<lparr>st_id = None, st_chat_id = chat, st_surname = a, st_name = b,
          st_patronymic = (if c = ''-'' then None else Some c), st_group_code = g,
          st_github = h, st_courses = [], st_created_at = None, st_updated_at = None\<rparr>"
  using assms by (simp add: build_student_def bind_def lookup_def as_str_def)

lemma reg_steps_github:
  assumes st: "get_state c = Some Reg_GITHUB"
    and d: "get_data c ''Reg:SURNAME'' = Some (VStr a)" "get_data c ''Reg:NAME'' = Some (VStr b)"
      "get_data c ''Reg:PATRONYMIC'' = Some (VStr p)" "get_data c ''Reg:GROUP'' = Some (VStr g)"
    and run: "reg_steps py tr chat m r c = (c', e, x)"
  shows "x = None \<and> get_state c' = Some Reg_CONFIRM
       \<and> get_data c' ''Reg:GITHUB'' = Some (VStr (strip py r))
       \<and> (\<forall>k. k \<noteq> BOT_MSG_KEY \<and> k \<noteq> ''Reg:GITHUB'' \<longrightarrow> get_data c' k = get_data c k)
       \<and> (\<exists>ctx. e = Delete_message chat (VInt m)
              # snd (send_student tr chat
                      (''<b>'' @ a @ '' '' @ b @ '' '' @ p @ ''</b>''
                        @ label_group @ g @ label_github @ strip py r) Confirm_kb ctx))"
proof -
  let ?d = "(get_data c)(''Reg:GITHUB'' \<mapsto> VStr (strip py r))"
  let ?S = "''<b>'' @ a @ '' '' @ b @ '' '' @ p @ ''</b>'' @ label_group @ g @ label_github @ strip py r"
  let ?c2 = "set_state Reg_CONFIRM (update_data ?d c)"
  let ?s = "send_student tr chat ?S Confirm_kb ?c2"
  have sm: "summary ?d = Inr ?S"
    using d by (intro summary_known) simp_all
  have "reg_steps py tr chat m r c = (fst ?s, [Delete_message chat (VInt m)] @ snd ?s, None)"
    using st sm by (simp add: reg_steps_def Let_def split_beta ORDER_def step_text_def)
  with run have c': "c' = fst ?s" and x: "x = None" and e: "e = Delete_message chat (VInt m) # snd ?s"
    by simp_all
  have "get_data c' ''Reg:GITHUB'' = Some (VStr (strip py r))"
    by (simp add: c' get_data_def send_student_data set_state_def update_data_def BOT_MSG_KEY_def)
  moreover have "\<forall>k. k \<noteq> BOT_MSG_KEY \<and> k \<noteq> ''Reg:GITHUB'' \<longrightarrow> get_data c' k = get_data c k"
    by (simp add: c' get_data_def send_student_data set_state_def update_data_def map_add_def
          split: option.splits)
  moreover have "get_state c' = Some Reg_CONFIRM"
    by (simp add: c' get_state_def send_student_state set_state_def update_data_def)
  ultimately show ?thesis using x e by blast
qed


lemma step_text_name: "step_text py Reg_SURNAME r = normalize_fio py (strip py r)"
  "step_text py Reg_NAME r = normalize_fio py (strip py r)"
  "step_text py Reg_PATRONYMIC r = normalize_fio py (strip py r)"
  "step_text py Reg_GROUP r = strip py r" "step_text py Reg_GITHUB r = strip py r"
  by (simp_all add: step_text_def)

lemma save_new:
  assumes "st_id s = None"
    and "\<not> list_ex (\<lambda>r. st_chat_id r = st_chat_id s) (tbl_rows t)"
    and "\<not> list_ex (\<lambda>r. same_identity r s) (tbl_rows t)"
  shows "save now s t =
     Inr \<lparr>tbl_rows = tbl_rows t @
            [s\<lparr>st_id := Some (tbl_last_id t + 1), st_created_at := Some now,
               st_updated_at := Some now\<rparr>],
          tbl_last_id = tbl_last_id t + 1\<rparr>"
proof -
  have "find (\<lambda>r. same_identity r s) (tbl_rows t) = None"
    using assms(3) by (simp add: find_None_iff list_ex_iff)
  then show ?thesis
    using assms by (simp add: save_def id_set_def check_existing_student_def sql_insert_def)
qed

text \<open>
  C8. Five texts entered in order from SURNAME, whatever the transport does at each step
  and whatever \<open>strip\<close> and \<open>title\<close> return: the wizard ends in CONFIRM without an
  error, the summary it sends is the f-string over the three names stripped and
  title-cased and the group and GitHub handle stripped, and no other text is sent at
  that step. \<open>reg_confirm\<close> on a table that holds neither the chat nor the identity then
  inserts one row with these values, whose patronymic is absent exactly when the stored
  (normalised) patronymic is the single character \<open>-\<close> and is the stored string
  otherwise.
\<close>

theorem wizard_summary_and_patronymic:
  assumes c0: "get_state c0 = Some Reg_SURNAME"
    and s1: "reg_steps py tr1 chat m1 r1 c0 = (c1, e1, x1)"
    and s2: "reg_steps py tr2 chat m2 r2 c1 = (c2, e2, x2)"
    and s3: "reg_steps py tr3 chat m3 r3 c2 = (c3, e3, x3)"
    and s4: "reg_steps py tr4 chat m4 r4 c3 = (c4, e4, x4)"
    and s5: "reg_steps py tr5 chat m5 r5 c4 = (c5, e5, x5)"
    and fresh_chat: "\<not> list_ex (\<lambda>r. st_chat_id r = chat) (tbl_rows t)"
    and fresh_identity:
      "\<not> list_ex (\<lambda>r. st_surname r = normalize_fio py (strip py r1)
                      \<and> st_name r = normalize_fio py (strip py r2)
                      \<and> st_group_code r = strip py r4 \<and> st_github r = strip py r5) (tbl_rows t)"
  shows "x5 = None \<and> get_state c5 = Some Reg_CONFIRM
       \<and> (\<exists>r. Send_message chat
                 (''<b>'' @ normalize_fio py (strip py r1) @ '' '' @ normalize_fio py (strip py r2) @ '' ''
                   @ normalize_fio py (strip py r3) @ ''</b>''
                   @ label_group @ strip py r4 @ label_github @ strip py r5) Confirm_kb r \<in> set e5)
       \<and> (\<forall>ch txt kb r. Send_message ch txt kb r \<in> set e5 \<longrightarrow>
             txt = ''<b>'' @ normalize_fio py (strip py r1) @ '' '' @ normalize_fio py (strip py r2) @ '' ''
                   @ normalize_fio py (strip py r3) @ ''</b>''
                   @ label_group @ strip py r4 @ label_github @ strip py r5)
       \<and> reg_confirm now chat m6 c5 t =
           (clear c5,
            \<lparr>tbl_rows = tbl_rows t @
               [\<lparr>st_id = Some (tbl_last_id t + 1), st_chat_id = chat,
                 st_surname = normalize_fio py (strip py r1), st_name = normalize_fio py (strip py r2),
                 st_patronymic = (if normalize_fio py (strip py r3) = ''-'' then None
                                  else Some (normalize_fio py (strip py r3))),
                 st_group_code = strip py r4, st_github = strip py r5, st_courses = [],
                 st_created_at = Some now, st_updated_at = Some now\<rparr>],
             tbl_last_id = tbl_last_id t + 1\<rparr>,
            [Delete_message chat (VInt m6), Answer_message chat txt_registered Main_menu_kb,
             Answer_callback None False],
            None)"
proof -
  let ?a = "normalize_fio py (strip py r1)" and ?b = "normalize_fio py (strip py r2)"
  let ?p = "normalize_fio py (strip py r3)" and ?g = "strip py r4" and ?h = "strip py r5"
  let ?S = "''<b>'' @ ?a @ '' '' @ ?b @ '' '' @ ?p @ ''</b>'' @ label_group @ ?g @ label_github @ ?h"
  have k: "''Reg:SURNAME'' \<noteq> BOT_MSG_KEY" "''Reg:NAME'' \<noteq> BOT_MSG_KEY"
    "''Reg:PATRONYMIC'' \<noteq> BOT_MSG_KEY" "''Reg:GROUP'' \<noteq> BOT_MSG_KEY"
    "''Reg:GITHUB'' \<noteq> BOT_MSG_KEY"
    by (simp_all add: BOT_MSG_KEY_def)
  have a1: "get_state c1 = Some Reg_NAME \<and> get_data c1 ''Reg:SURNAME'' = Some (VStr ?a)"
    using reg_steps_advance [OF c0 _ _ s1, of 0] by (simp add: ORDER_def step_text_name)
  have a2: "get_state c2 = Some Reg_PATRONYMIC \<and> get_data c2 ''Reg:SURNAME'' = Some (VStr ?a)
      \<and> get_data c2 ''Reg:NAME'' = Some (VStr ?b)"
    using reg_steps_advance [OF conjunct1 [OF a1] _ _ s2, of 1] a1 k
    by (simp add: ORDER_def step_text_name)
  have a3: "get_state c3 = Some Reg_GROUP \<and> get_data c3 ''Reg:SURNAME'' = Some (VStr ?a)
      \<and> get_data c3 ''Reg:NAME'' = Some (VStr ?b) \<and> get_data c3 ''Reg:PATRONYMIC'' = Some (VStr ?p)"
    using reg_steps_advance [OF conjunct1 [OF a2] _ _ s3, of 2] a2 k
    by (simp add: ORDER_def step_text_name)
  have a4: "get_state c4 = Some Reg_GITHUB \<and> get_data c4 ''Reg:SURNAME'' = Some (VStr ?a)
      \<and> get_data c4 ''Reg:NAME'' = Some (VStr ?b) \<and> get_data c4 ''Reg:PATRONYMIC'' = Some (VStr ?p)
      \<and> get_data c4 ''Reg:GROUP'' = Some (VStr ?g)"
    using reg_steps_advance [OF conjunct1 [OF a3] _ _ s4, of 3] a3 k
    by (simp add: ORDER_def step_text_name)
  from a4 have st4: "get_state c4 = Some Reg_GITHUB"
    and d4: "get_data c4 ''Reg:SURNAME'' = Some (VStr ?a)" "get_data c4 ''Reg:NAME'' = Some (VStr ?b)"
      "get_data c4 ''Reg:PATRONYMIC'' = Some (VStr ?p)" "get_data c4 ''Reg:GROUP'' = Some (VStr ?g)"
    by simp_all
  note g = reg_steps_github [OF st4 d4 s5]
  from g obtain ctx where e5: "e5 = Delete_message chat (VInt m5) # snd (send_student tr5 chat ?S Confirm_kb ctx)"
    by blast
  have x5: "x5 = None" and st5: "get_state c5 = Some Reg_CONFIRM" using g by simp_all
  have d5: "get_data c5 ''Reg:SURNAME'' = Some (VStr ?a)" "get_data c5 ''Reg:NAME'' = Some (VStr ?b)"
      "get_data c5 ''Reg:PATRONYMIC'' = Some (VStr ?p)" "get_data c5 ''Reg:GROUP'' = Some (VStr ?g)"
      "get_data c5 ''Reg:GITHUB'' = Some (VStr ?h)"
    using g d4 k by simp_all
  have sent: "\<exists>r. Send_message chat ?S Confirm_kb r \<in> set e5"
    using send_student_sends [of chat ?S Confirm_kb tr5 ctx] by (auto simp: e5)
  have only: "\<forall>ch txt kb r. Send_message ch txt kb r \<in> set e5 \<longrightarrow> txt = ?S"
    using send_student_only [of _ _ _ _ tr5 chat ?S Confirm_kb ctx] by (auto simp: e5)
  let ?s = "\<lparr>st_id = None, st_chat_id = chat, st_surname = ?a, st_name = ?b,
          st_patronymic = (if ?p = ''-'' then None else Some ?p), st_group_code = ?g,
          st_github = ?h, st_courses = [], st_created_at = None, st_updated_at = None\<rparr>"
  have b: "build_student chat (get_data c5) = Inr ?s"
    by (rule build_student_known [OF d5])
  have sv: "save now ?s t = Inr \<lparr>tbl_rows = tbl_rows t @
            [?s\<lparr>st_id := Some (tbl_last_id t + 1), st_created_at := Some now,
               st_updated_at := Some now\<rparr>],
          tbl_last_id = tbl_last_id t + 1\<rparr>"
    using fresh_chat fresh_identity by (intro save_new) (simp_all add: same_identity_def)
  have rc: "reg_confirm now chat m6 c5 t =
           (clear c5,
            \<lparr>tbl_rows = tbl_rows t @
               [\<lparr>st_id = Some (tbl_last_id t + 1), st_chat_id = chat,
                 st_surname = ?a, st_name = ?b,
                 st_patronymic = (if ?p = ''-'' then None else Some ?p),
                 st_group_code = ?g, st_github = ?h, st_courses = [],
                 st_created_at = Some now, st_updated_at = Some now\<rparr>],
             tbl_last_id = tbl_last_id t + 1\<rparr>,
            [Delete_message chat (VInt m6), Answer_message chat txt_registered Main_menu_kb,
             Answer_callback None False],
            None)"
    unfolding reg_confirm_def Let_def b sum.case sv by simp
  show ?thesis using x5 st5 sent only rc by blast
qed


text \<open>
  The theorem on an empty table, on ASCII input: the surname is entered in mixed case
  with a leading blank, the patronymic as a dash between blanks.
\<close>

theorem wizard_summary_and_patronymic_witness:
  "fst (snd (reg_confirm 100 7 16
     (fst (reg_steps ascii_methods (\<lparr>delete_outcome = Deleted, send_outcome = Some 20, fallback_outcome = None\<rparr>) 7 15 ''ivan-gh ''
       (fst (reg_steps ascii_methods (\<lparr>delete_outcome = Deleted, send_outcome = Some 20, fallback_outcome = None\<rparr>) 7 14 ''4231''
         (fst (reg_steps ascii_methods (\<lparr>delete_outcome = Deleted, send_outcome = Some 20, fallback_outcome = None\<rparr>) 7 13 '' - ''
           (fst (reg_steps ascii_methods (\<lparr>delete_outcome = Deleted, send_outcome = Some 20, fallback_outcome = None\<rparr>) 7 12 ''ivan''
             (fst (reg_steps ascii_methods (\<lparr>delete_outcome = Deleted, send_outcome = Some 20, fallback_outcome = None\<rparr>) 7 11 '' iVANOV'' \<lparr>fsm_state = Some Reg_SURNAME, fsm_data = Map.empty\<rparr>))))))))))
     \<lparr>tbl_rows = [], tbl_last_id = 0\<rparr>))
   = \<lparr>tbl_rows =
        [\<lparr>st_id = Some 1, st_chat_id = 7, st_surname = ''Ivanov'', st_name = ''Ivan'',
          st_patronymic = None, st_group_code = ''4231'', st_github = ''ivan-gh'',
          st_courses = [], st_created_at = Some 100, st_updated_at = Some 100\<rparr>],
      tbl_last_id = 1\<rparr>"
proof -
  let ?W = "(\<lparr>delete_outcome = Deleted, send_outcome = Some 20, fallback_outcome = None\<rparr>)"
  let ?R1 = "reg_steps ascii_methods ?W 7 11 '' iVANOV'' \<lparr>fsm_state = Some Reg_SURNAME, fsm_data = Map.empty\<rparr>"
  let ?R2 = "reg_steps ascii_methods ?W 7 12 ''ivan'' (fst ?R1)"
  let ?R3 = "reg_steps ascii_methods ?W 7 13 '' - '' (fst ?R2)"
  let ?R4 = "reg_steps ascii_methods ?W 7 14 ''4231'' (fst ?R3)"
  let ?R5 = "reg_steps ascii_methods ?W 7 15 ''ivan-gh '' (fst ?R4)"
  have c0: "get_state \<lparr>fsm_state = Some Reg_SURNAME, fsm_data = Map.empty\<rparr> = Some Reg_SURNAME"
    by (simp add: get_state_def)
  have s1: "?R1 = (fst ?R1, fst (snd ?R1), snd (snd ?R1))" by simp
  have s2: "?R2 = (fst ?R2, fst (snd ?R2), snd (snd ?R2))" by simp
  have s3: "?R3 = (fst ?R3, fst (snd ?R3), snd (snd ?R3))" by simp
  have s4: "?R4 = (fst ?R4, fst (snd ?R4), snd (snd ?R4))" by simp
  have s5: "?R5 = (fst ?R5, fst (snd ?R5), snd (snd ?R5))" by simp
  have f1: "\<not> list_ex (\<lambda>r. st_chat_id r = 7) (tbl_rows \<lparr>tbl_rows = [], tbl_last_id = 0\<rparr>)"
    by simp
  have f2: "\<not> list_ex (\<lambda>r. st_surname r = normalize_fio ascii_methods (strip ascii_methods '' iVANOV'')
                      \<and> st_name r = normalize_fio ascii_methods (strip ascii_methods ''ivan'')
                      \<and> st_group_code r = strip ascii_methods ''4231'' \<and> st_github r = strip ascii_methods ''ivan-gh '')
               (tbl_rows \<lparr>tbl_rows = [], tbl_last_id = 0\<rparr>)"
    by simp
  have n: "normalize_fio ascii_methods (strip ascii_methods '' iVANOV'') = ''Ivanov''" "normalize_fio ascii_methods (strip ascii_methods ''ivan'') = ''Ivan''"
    "normalize_fio ascii_methods (strip ascii_methods '' - '') = ''-''" "strip ascii_methods ''4231'' = ''4231''"
    "strip ascii_methods ''ivan-gh '' = ''ivan-gh''"
    by code_simp+
  from wizard_summary_and_patronymic [OF c0 s1 s2 s3 s4 s5 f1 f2, of 100 16]
  show ?thesis by (simp add: n)
qed



lemma same_identity_sym: "same_identity a b \<Longrightarrow> same_identity b a"
  by (simp add: same_identity_def)




section \<open>Properties of the admin flow\<close>

lemma send_admin_state: "fsm_state (fst (send_admin tr chat txt kb ctx)) = fsm_state ctx"
  by (simp add: send_admin_def update_data_def get_data_def Let_def split: option.splits)

lemma send_admin_sends:
  "\<exists>r. Send_message chat txt kb r \<in> set (snd (send_admin tr chat txt kb ctx))"
  by (auto simp: send_admin_def Let_def split: option.splits)

lemma admin_password_failed:
  assumes "get_data ctx ''login'' = Some lg" and "no_cookie (login resp)"
  shows "admin_password_step py tr now resp chat mid (Some t) ctx db =
           (fst (send_admin tr chat txt_bad_credentials Login_back_kb ctx), db,
            [Delete_message chat (VInt mid), Call (Login lg (strip py t))]
              @ snd (send_admin tr chat txt_bad_credentials Login_back_kb ctx),
            None)"
  using assms by (simp add: admin_password_step_def lookup_def Let_def split_beta)

lemma admin_password_passed:
  assumes "get_data ctx ''login'' = Some lg" and "login resp = Some c" and "c \<noteq> []"
  shows "admin_password_step py tr now resp chat mid (Some t) ctx db =
           (fst (send_admin tr chat txt_admin_panel Admin_main_kb (set_state AdminMenu_MAIN ctx)),
            Some [(c, now + 3600)],
            [Delete_message chat (VInt mid), Call (Login lg (strip py t))]
              @ snd (send_admin tr chat txt_admin_panel Admin_main_kb (set_state AdminMenu_MAIN ctx)),
            None)"
  using assms
  by (simp add: admin_password_step_def lookup_def Let_def split_beta no_cookie_def
        save_cookie_def ensure_table_def default_ttl_def split: option.splits)

text \<open>
  C1, as the code has it. With a login stored in the bag and a text message: when the
  login call returns no cookie, the handler ends without an error, the state is the one
  it was called in (PASSWORD, not LOGIN), the session store is untouched and the error
  prompt is sent; when it returns a cookie, the state becomes MAIN, the store holds that
  cookie alone, expiring 3600 seconds from now, and the panel is sent.
\<close>

theorem admin_password_step_outcomes:
  assumes "get_data ctx ''login'' = Some lg"
  shows "(no_cookie (login resp) \<longrightarrow>
            snd (snd (snd (admin_password_step py tr now resp chat mid (Some t) ctx db))) = None
          \<and> get_state (fst (admin_password_step py tr now resp chat mid (Some t) ctx db))
              = get_state ctx
          \<and> fst (snd (admin_password_step py tr now resp chat mid (Some t) ctx db)) = db
          \<and> (\<exists>r. Send_message chat txt_bad_credentials Login_back_kb r
                 \<in> set (fst (snd (snd (admin_password_step py tr now resp chat mid (Some t) ctx db))))))
       \<and> (\<forall>c. login resp = Some c \<and> c \<noteq> [] \<longrightarrow>
            snd (snd (snd (admin_password_step py tr now resp chat mid (Some t) ctx db))) = None
          \<and> get_state (fst (admin_password_step py tr now resp chat mid (Some t) ctx db))
              = Some AdminMenu_MAIN
          \<and> fst (snd (admin_password_step py tr now resp chat mid (Some t) ctx db))
              = Some [(c, now + 3600)]
          \<and> (\<exists>r. Send_message chat txt_admin_panel Admin_main_kb r
                 \<in> set (fst (snd (snd (admin_password_step py tr now resp chat mid (Some t) ctx db))))))"
proof (intro conjI impI allI)
  assume f: "no_cookie (login resp)"
  note r = admin_password_failed [OF assms f, of py tr now chat mid t db]
  show "snd (snd (snd (admin_password_step py tr now resp chat mid (Some t) ctx db))) = None"
    by (simp add: r)
  show "get_state (fst (admin_password_step py tr now resp chat mid (Some t) ctx db)) = get_state ctx"
    by (simp add: r get_state_def send_admin_state)
  show "fst (snd (admin_password_step py tr now resp chat mid (Some t) ctx db)) = db"
    by (simp add: r)
  show "\<exists>r. Send_message chat txt_bad_credentials Login_back_kb r
          \<in> set (fst (snd (snd (admin_password_step py tr now resp chat mid (Some t) ctx db))))"
    using send_admin_sends [of chat txt_bad_credentials Login_back_kb tr ctx] by (auto simp: r)
next
  fix c assume "login resp = Some c \<and> c \<noteq> []"
  then have c: "login resp = Some c" "c \<noteq> []" by simp_all
  note r = admin_password_passed [OF assms c, of py tr now chat mid t db]
  show "snd (snd (snd (admin_password_step py tr now resp chat mid (Some t) ctx db))) = None"
    by (simp add: r)
  show "get_state (fst (admin_password_step py tr now resp chat mid (Some t) ctx db))
          = Some AdminMenu_MAIN"
    by (simp add: r get_state_def send_admin_state set_state_def)
  show "fst (snd (admin_password_step py tr now resp chat mid (Some t) ctx db))
          = Some [(c, now + 3600)]"
    by (simp add: r)
  show "\<exists>r. Send_message chat txt_admin_panel Admin_main_kb r
          \<in> set (fst (snd (snd (admin_password_step py tr now resp chat mid (Some t) ctx db))))"
    using send_admin_sends [of chat txt_admin_panel Admin_main_kb tr "set_state AdminMenu_MAIN ctx"]
    by (auto simp: r)
qed

text \<open>
  C1 as stated fails: after a rejected login (status 401, no cookie) the conversation is
  still in PASSWORD; nothing sets it back to LOGIN.
\<close>

theorem admin_password_failure_keeps_password_state:
  "get_state (fst (admin_password_step ascii_methods
      \<lparr>delete_outcome = Deleted, send_outcome = Some 5, fallback_outcome = None\<rparr> 1000
      \<lparr>lr_status = 401, lr_cookie = None\<rparr> 7 3 (Some ''pw'')
      \<lparr>fsm_state = Some AdminLogin_PASSWORD, fsm_data = [''login'' \<mapsto> VStr ''root'']\<rparr>
      (Some [])))
   = Some AdminLogin_PASSWORD
   \<and> get_state (fst (admin_password_step ascii_methods
      \<lparr>delete_outcome = Deleted, send_outcome = Some 5, fallback_outcome = None\<rparr> 1000
      \<lparr>lr_status = 401, lr_cookie = None\<rparr> 7 3 (Some ''pw'')
      \<lparr>fsm_state = Some AdminLogin_PASSWORD, fsm_data = [''login'' \<mapsto> VStr ''root'']\<rparr>
      (Some [])))
   \<noteq> Some AdminLogin_LOGIN"
  by (simp add: admin_password_step_def lookup_def get_data_def login_def no_cookie_def
        send_admin_def Let_def get_state_def update_data_def BOT_MSG_KEY_def)

text \<open>
  The theorem at a session in PASSWORD with login \<open>root\<close>: an accepted login replaces
  the old token, a rejected one leaves the state as it was.
\<close>

theorem admin_password_step_outcomes_witness:
  "get_state (fst (admin_password_step ascii_methods
      \<lparr>delete_outcome = Deleted, send_outcome = Some 5, fallback_outcome = None\<rparr> 1000
      \<lparr>lr_status = 200, lr_cookie = Some ''s3cr3t''\<rparr> 7 3 (Some ''pw'')
      \<lparr>fsm_state = Some AdminLogin_PASSWORD, fsm_data = [''login'' \<mapsto> VStr ''root'']\<rparr>
      (Some [(''old'', 50)])))
   = Some AdminMenu_MAIN
   \<and> fst (snd (admin_password_step ascii_methods
      \<lparr>delete_outcome = Deleted, send_outcome = Some 5, fallback_outcome = None\<rparr> 1000
      \<lparr>lr_status = 200, lr_cookie = Some ''s3cr3t''\<rparr> 7 3 (Some ''pw'')
      \<lparr>fsm_state = Some AdminLogin_PASSWORD, fsm_data = [''login'' \<mapsto> VStr ''root'']\<rparr>
      (Some [(''old'', 50)])))
   = Some [(''s3cr3t'', 4600)]
   \<and> get_state (fst (admin_password_step ascii_methods
      \<lparr>delete_outcome = Deleted, send_outcome = Some 5, fallback_outcome = None\<rparr> 1000
      \<lparr>lr_status = 401, lr_cookie = None\<rparr> 7 3 (Some ''pw'')
      \<lparr>fsm_state = Some AdminLogin_PASSWORD, fsm_data = [''login'' \<mapsto> VStr ''root'']\<rparr>
      (Some [(''old'', 50)])))
   = Some AdminLogin_PASSWORD"
proof -
  let ?ctx = "\<lparr>fsm_state = Some AdminLogin_PASSWORD, fsm_data = [''login'' \<mapsto> VStr ''root'']\<rparr>"
  let ?tr = "\<lparr>delete_outcome = Deleted, send_outcome = Some 5, fallback_outcome = None\<rparr>"
  have lg: "get_data ?ctx ''login'' = Some (VStr ''root'')" by (simp add: get_data_def)
  have ok: "login \<lparr>lr_status = 200, lr_cookie = Some ''s3cr3t''\<rparr> = Some ''s3cr3t''"
    by (simp add: login_def)
  have ko: "no_cookie (login \<lparr>lr_status = 401, lr_cookie = None\<rparr>)"
    by (simp add: login_def no_cookie_def)
  from admin_password_step_outcomes [OF lg, of "\<lparr>lr_status = 200, lr_cookie = Some ''s3cr3t''\<rparr>"
        ascii_methods ?tr 1000 7 3 "''pw''" "Some [(''old'', 50)]"]
       admin_password_step_outcomes [OF lg, of "\<lparr>lr_status = 401, lr_cookie = None\<rparr>"
        ascii_methods ?tr 1000 7 3 "''pw''" "Some [(''old'', 50)]"]
  show ?thesis using ok ko by (simp add: get_state_def)
qed

text \<open>
  The guard on a stored session that has expired: it purges the store, alerts and
  reports failure, and the handlers that call it stop there with the state as it was.
\<close>

lemma ensure_admin_expired:
  "expires \<le> now \<Longrightarrow>
   ensure_admin now (Some ((cookie, expires) # rows))
     = (False, Some [], [Answer_callback (Some txt_session_expired) True], None)"
  by (simp add: ensure_admin_def get_cookie_def clear_sessions_def)

lemma admin_courses_expired:
  "expires \<le> now \<Longrightarrow>
   admin_courses tr now courses chat ctx (Some ((cookie, expires) # rows))
     = (ctx, Some [], [Answer_callback (Some txt_session_expired) True], None)"
  by (simp add: admin_courses_def ensure_admin_expired)

lemma add_course_start_expired:
  "expires \<le> now \<Longrightarrow>
   add_course_start tr now chat ctx (Some ((cookie, expires) # rows))
     = (ctx, Some [], [Answer_callback (Some txt_session_expired) True], None)"
  by (simp add: add_course_start_def ensure_admin_expired)

text \<open>
  \<open>do_course_del\<close> never reads the expiry: with any stored session it calls the remote
  delete first and returns the store as it was.
\<close>

lemma do_course_del_calls_remote:
  "\<exists>ctx' ev err.
     do_course_del tr deleted relisted chat cid ctx (Some ((cookie, expires) # rows))
       = (ctx', Some ((cookie, expires) # rows), Call (Delete_course cookie cid) # ev, err)"
  by (simp add: do_course_del_def get_cookie_def Let_def split_beta split: option.splits)

text \<open>
  C2 at a session that expired at 900, at time 1000: the guard would purge it and stop,
  but the confirmed course deletion does not call the guard. It sends the remote delete
  with the expired cookie and leaves the token stored.
\<close>

theorem do_course_del_with_expired_token:
  "ensure_admin 1000 (Some [(''c'', 900)])
     = (False, Some [], [Answer_callback (Some txt_session_expired) True], None)
   \<and> do_course_del \<lparr>delete_outcome = Deleted, send_outcome = Some 5, fallback_outcome = None\<rparr>
        False None 7 ''1'' \<lparr>fsm_state = Some AdminMenu_CONFIRM, fsm_data = Map.empty\<rparr>
        (Some [(''c'', 900)])
     = (\<lparr>fsm_state = Some AdminMenu_CONFIRM, fsm_data = Map.empty\<rparr>, Some [(''c'', 900)],
        [Call (Delete_course ''c'' ''1''), Answer_callback (Some txt_delete_failed) True,
         Answer_callback None False],
        None)"
  by (simp add: ensure_admin_def get_cookie_def clear_sessions_def do_course_del_def)

lemma run_ops_some:
  "\<exists>rows'. run_ops ops (Some rows) = Inr (Some rows')
           \<and> (length rows' \<le> 1 \<or> (ops = [] \<and> rows' = rows))"
proof (induction ops arbitrary: rows)
  case Nil
  then show ?case by simp
next
  case (Cons x xs)
  obtain r where r: "run_op x (Some rows) = Inr (Some r)" and len: "length r \<le> 1"
    by (cases x) (simp_all add: save_cookie_def clear_sessions_def)
  from Cons.IH [of r] obtain rows' where
    "run_ops xs (Some r) = Inr (Some rows')" "length rows' \<le> 1 \<or> (xs = [] \<and> rows' = r)"
    by blast
  with r len show ?case by auto
qed

text \<open>
  C9. From a freshly created table, any sequence of \<open>save_cookie\<close> and \<open>clear\<close> calls
  runs without an error and leaves at most one row. \<open>save_cookie\<close> replaces whatever
  rows there are by the one new token, which expires 3600 seconds from now; \<open>clear\<close>,
  the logout and the guard's purge of an expired session leave no row; a successful login
  stores its cookie as the only row.
\<close>

theorem session_store_single_token:
  "(\<exists>rows. run_ops ops (ensure_table None) = Inr (Some rows) \<and> length rows \<le> 1)
   \<and> save_cookie now cookie default_ttl (Some rows0) = Inr (Some [(cookie, now + 3600)])
   \<and> clear_sessions (Some rows0) = Inr (Some [])
   \<and> fst (admin_logout chat mid (Some rows0)) = Some []
   \<and> (\<forall>c expires. expires \<le> now \<longrightarrow>
         fst (snd (ensure_admin now (Some ((c, expires) # rows0)))) = Some [])
   \<and> (\<forall>c lg. get_data ctx ''login'' = Some lg \<and> login resp = Some c \<and> c \<noteq> [] \<longrightarrow>
         fst (snd (admin_password_step py tr now resp chat mid (Some t) ctx (Some rows0)))
           = Some [(c, now + 3600)])"
proof (intro conjI allI impI)
  from run_ops_some [of ops "[]"]
  show "\<exists>rows. run_ops ops (ensure_table None) = Inr (Some rows) \<and> length rows \<le> 1"
    by (auto simp: ensure_table_def)
  show "save_cookie now cookie default_ttl (Some rows0) = Inr (Some [(cookie, now + 3600)])"
    by (simp add: save_cookie_def default_ttl_def)
  show "clear_sessions (Some rows0) = Inr (Some [])"
    by (simp add: clear_sessions_def)
  show "fst (admin_logout chat mid (Some rows0)) = Some []"
    by (cases rows0) (simp_all add: admin_logout_def get_cookie_def clear_sessions_def Let_def)
next
  fix c expires assume "expires \<le> now"
  then show "fst (snd (ensure_admin now (Some ((c, expires) # rows0)))) = Some []"
    by (simp add: ensure_admin_expired)
next
  fix c lg assume "get_data ctx ''login'' = Some lg \<and> login resp = Some c \<and> c \<noteq> []"
  then show "fst (snd (admin_password_step py tr now resp chat mid (Some t) ctx (Some rows0)))
           = Some [(c, now + 3600)]"
    by (simp add: admin_password_passed)
qed

text \<open>The theorem at three logins and a logout in between.\<close>

theorem session_store_single_token_witness:
  "run_ops [Op_save_cookie 10 ''a'', Op_save_cookie 20 ''b'', Op_clear, Op_save_cookie 30 ''c'']
     (ensure_table None) = Inr (Some [(''c'', 3630)])
   \<and> fst (snd (ensure_admin 5000 (Some [(''c'', 3630)]))) = Some []"
  using session_store_single_token [of
      "[Op_save_cookie 10 ''a'', Op_save_cookie 20 ''b'', Op_clear, Op_save_cookie 30 ''c'']"
      5000 "''c''" "[]" 7 3
      "\<lparr>fsm_state = Some AdminLogin_PASSWORD, fsm_data = Map.empty\<rparr>"
      "\<lparr>lr_status = 200, lr_cookie = Some ''c''\<rparr>" ascii_methods
      "\<lparr>delete_outcome = Deleted, send_outcome = Some 5, fallback_outcome = None\<rparr>"
      "''pw''"]
  by (simp add: ensure_table_def save_cookie_def clear_sessions_def default_ttl_def)

section \<open>Properties of the grading poll\<close>

lemma poll_turn_pending:
  assumes "grade_lab r = Some res" and "dict_get res ''status'' = Some (JStr ''pending'')"
  shows "poll_turn py_repr chat wait_id call r = ([Call call, Sleep 15], None, True)"
proof -
  from assms(2) have "res \<noteq> []" by (auto simp: dict_get_def)
  with assms show ?thesis by (simp add: poll_turn_def)
qed

lemma grade_lab_disconnected:
  "grade_lab Disconnected = Some [(''status'', JStr ''pending''), (''message'', JStr txt_no_answer)]"
  by (simp add: grade_lab_def)

text \<open>
  C3. A dropped connection does not raise: \<open>grade_lab\<close> returns a reply with status
  \<open>pending\<close>. The turn of the poll loop on it is the turn on any 200 reply whose status is
  \<open>pending\<close>: the request, a wait of 15, no edit of the placeholder, and the loop goes
  round again with the outcomes that follow.
\<close>

theorem disconnect_is_pending:
  "grade_lab Disconnected = Some [(''status'', JStr ''pending''), (''message'', JStr txt_no_answer)]
   \<and> poll_turn py_repr chat wait_id call Disconnected = ([Call call, Sleep 15], None, True)
   \<and> (dict_get body ''status'' = Some (JStr ''pending'') \<longrightarrow>
        poll_turn py_repr chat wait_id call (Http_200 body)
          = poll_turn py_repr chat wait_id call Disconnected)
   \<and> poll py_repr chat wait_id call (Disconnected # rs)
        = map_option (\<lambda>(ev, err). ([Call call, Sleep 15] @ ev, err))
            (poll py_repr chat wait_id call rs)
   \<and> poll py_repr chat wait_id call (Disconnected # rs)
        = poll py_repr chat wait_id call (Http_200 [(''status'', JStr ''pending'')] # rs)"
proof -
  have d: "poll_turn py_repr chat wait_id call Disconnected = ([Call call, Sleep 15], None, True)"
    by (rule poll_turn_pending [OF grade_lab_disconnected]) (simp add: dict_get_def)
  have b: "dict_get body ''status'' = Some (JStr ''pending'') \<Longrightarrow>
        poll_turn py_repr chat wait_id call (Http_200 body) = ([Call call, Sleep 15], None, True)"
    for body
    by (rule poll_turn_pending [of _ body]) (simp_all add: grade_lab_def)
  have p: "poll_turn py_repr chat wait_id call (Http_200 [(''status'', JStr ''pending'')])
             = ([Call call, Sleep 15], None, True)"
    by (rule b) (simp add: dict_get_def)
  show ?thesis
    using b [of body] by (simp add: grade_lab_disconnected d p)
qed

text \<open>
  The theorem at a dropped connection, then a pending reply, then a failure: two waits,
  and only the third turn edits the placeholder.
\<close>

theorem disconnect_is_pending_witness:
  "poll (\<lambda>xs. []) 7 9 (Grade_lab ''1'' ''4231'' ''lab1'' ''ivan-gh'')
     [Disconnected, Http_200 [(''status'', JStr ''pending''), (''message'', JStr ''queued'')], Failed]
   = Some ([Call (Grade_lab ''1'' ''4231'' ''lab1'' ''ivan-gh''), Sleep 15,
            Call (Grade_lab ''1'' ''4231'' ''lab1'' ''ivan-gh''), Sleep 15,
            Call (Grade_lab ''1'' ''4231'' ''lab1'' ''ivan-gh''),
            Edit_text 7 9 txt_server_error Home_kb], None)"
  using disconnect_is_pending [of "\<lambda>xs. []" 7 9 "Grade_lab ''1'' ''4231'' ''lab1'' ''ivan-gh''"
      "[(''status'', JStr ''pending''), (''message'', JStr ''queued'')]"
      "[Http_200 [(''status'', JStr ''pending''), (''message'', JStr ''queued'')], Failed]"]
  by (simp add: dict_get_def poll_turn_def grade_lab_def)

lemma poll_pending_prefix:
  assumes "\<forall>r \<in> set ps. \<exists>res. grade_lab r = Some res
              \<and> dict_get res ''status'' = Some (JStr ''pending'')"
  shows "poll py_repr chat wait_id call (ps @ rs)
           = map_option (\<lambda>(ev, err). (concat (replicate (length ps) [Call call, Sleep 15]) @ ev, err))
               (poll py_repr chat wait_id call rs)"
  using assms
proof (induction ps)
  case Nil
  show ?case by (simp add: option.map_ident split_def)
next
  case (Cons p ps)
  then obtain res where "grade_lab p = Some res" "dict_get res ''status'' = Some (JStr ''pending'')"
    by auto
  then have t: "poll_turn py_repr chat wait_id call p = ([Call call, Sleep 15], None, True)"
    by (rule poll_turn_pending)
  from Cons have "poll py_repr chat wait_id call (ps @ rs)
           = map_option (\<lambda>(ev, err). (concat (replicate (length ps) [Call call, Sleep 15]) @ ev, err))
               (poll py_repr chat wait_id call rs)"
    by simp
  then show ?case
    by (simp add: t option.map_comp comp_def split_def)
qed

lemma result_text_formed:
  assumes "quote_html (get_default u ''message'' (JStr [])) = Inr quoted"
    and "join_checks (get_default u ''checks'' (JList [])) = Inr joined"
  shows "result_text py_repr u =
     Inr (bold word_result @ '': '' @ format_value py_repr (get_default u ''result'' (JStr cross))
          @ [CHR 0x0A] @ quoted @ [CHR 0x0A, CHR 0x0A]
          @ bold word_tests @ '': '' @ format_value py_repr (get_default u ''passed'' (JStr []))
          @ [CHR 0x0A, CHR 0x0A] @ joined)"
  using assms by (simp add: result_text_def bind_def Let_def)

lemma poll_turn_updated:
  assumes "dict_get u ''status'' = Some (JStr ''updated'')" and "result_text py_repr u = Inr txt"
  shows "poll_turn py_repr chat wait_id call (Http_200 u)
           = ([Call call, Edit_text chat wait_id txt Home_kb], None, False)"
proof -
  from assms(1) have "u \<noteq> []" by (auto simp: dict_get_def)
  with assms show ?thesis by (simp add: poll_turn_def grade_lab_def)
qed

lemma split_underscore_0: "split_underscore 0 s = [s]"
  by (induction s) simp_all

lemma split_underscore_word:
  "CHR ''_'' \<notin> set w \<Longrightarrow>
   split_underscore (Suc n) (w @ CHR ''_'' # s) = w # split_underscore n s"
  by (induction w) auto

lemma split_lab:
  assumes "CHR ''_'' \<notin> set cid"
  shows "split_underscore 2 (''lab_'' @ cid @ ''_'' @ lab) = [''lab'', cid, lab]"
proof -
  have "split_underscore 2 (''lab_'' @ cid @ ''_'' @ lab)
          = ''lab'' # split_underscore (Suc 0) (cid @ CHR ''_'' # lab)"
    using split_underscore_word [of "''lab''" 1 "cid @ CHR ''_'' # lab"]
    by (simp add: numeral_2_eq_2)
  also have "\<dots> = ''lab'' # cid # split_underscore 0 lab"
    by (simp only: split_underscore_word [OF assms])
  finally show ?thesis by (simp add: split_underscore_0)
qed

lemma lab_selected_student:
  assumes "cb_data = ''lab_'' @ cid @ ''_'' @ lab" and "CHR ''_'' \<notin> set cid"
    and "get_by_chat chat t = Some st"
  shows "lab_selected chat mid wait_id cb_data t
           = ([Delete_message chat (VInt mid), Send_message chat txt_checking No_kb (Some wait_id),
               Answer_callback None False],
              None, Some (Grade_lab cid (st_group_code st) lab (st_github st)))"
proof -
  have "split_underscore 2 cb_data = [''lab'', cid, lab]"
    unfolding assms(1) by (rule split_lab [OF assms(2)])
  then show ?thesis
    using assms(3) by (simp add: lab_selected_def)
qed

text \<open>
  C4, as the code has it. The callback is \<open>lab_<course>_<lab>\<close> from a chat that has a
  student, and the requests of the poll come to \<open>length ps\<close> outcomes that are pending,
  then a 200 reply with status \<open>updated\<close> that can be formatted: \<open>html.escape\<close> takes
  its message (a string, or absent) and its checks can be joined (a list of strings, a
  string, or absent). Whatever outcomes would follow, the loop returns; \<open>ev\<close>, the events
  of the handler and then of the poll, holds one message sent (the placeholder), one
  edit, of that message and with the result text, as the last event, \<open>length ps\<close>
  waits, each of 15, and one request more than waits.
\<close>

theorem poll_pending_then_updated:
  assumes callback: "cb_data = ''lab_'' @ cid @ ''_'' @ lab" and course: "CHR ''_'' \<notin> set cid"
    and student: "get_by_chat chat t = Some st"
    and request: "call = Grade_lab cid (st_group_code st) lab (st_github st)"
    and pending: "\<forall>r \<in> set ps. \<exists>res. grade_lab r = Some res
              \<and> dict_get res ''status'' = Some (JStr ''pending'')"
    and updated: "dict_get u ''status'' = Some (JStr ''updated'')"
    and message: "quote_html (get_default u ''message'' (JStr [])) = Inr quoted"
    and checks: "join_checks (get_default u ''checks'' (JList [])) = Inr joined"
    and trace: "ev = [Delete_message chat (VInt mid),
                      Send_message chat txt_checking No_kb (Some wait_id),
                      Answer_callback None False]
                  @ concat (replicate (length ps) [Call call, Sleep 15])
                  @ [Call call,
                     Edit_text chat wait_id
                       (bold word_result @ '': ''
                        @ format_value py_repr (get_default u ''result'' (JStr cross))
                        @ [CHR 0x0A] @ quoted @ [CHR 0x0A, CHR 0x0A]
                        @ bold word_tests @ '': ''
                        @ format_value py_repr (get_default u ''passed'' (JStr []))
                        @ [CHR 0x0A, CHR 0x0A] @ joined)
                       Home_kb]"
  shows "lab_check py_repr chat mid wait_id cb_data t (ps @ Http_200 u # rest) = Some (ev, None)
       \<and> filter (\<lambda>e. case e of Send_message c x k r \<Rightarrow> True | Answer_message c x k \<Rightarrow> True
                              | _ \<Rightarrow> False) ev
           = [Send_message chat txt_checking No_kb (Some wait_id)]
       \<and> length (filter (\<lambda>e. case e of Edit_text c i x k \<Rightarrow> True | _ \<Rightarrow> False) ev) = 1
       \<and> length (filter (\<lambda>e. case e of Sleep d \<Rightarrow> True | _ \<Rightarrow> False) ev) = length ps
       \<and> length (filter (\<lambda>e. e = Sleep 15) ev) = length ps
       \<and> length (filter (\<lambda>e. e = Call call) ev) = length ps + 1
       \<and> last ev = Edit_text chat wait_id
                       (bold word_result @ '': ''
                        @ format_value py_repr (get_default u ''result'' (JStr cross))
                        @ [CHR 0x0A] @ quoted @ [CHR 0x0A, CHR 0x0A]
                        @ bold word_tests @ '': ''
                        @ format_value py_repr (get_default u ''passed'' (JStr []))
                        @ [CHR 0x0A, CHR 0x0A] @ joined)
                       Home_kb"
proof -
  let ?txt = "bold word_result @ '': ''
                        @ format_value py_repr (get_default u ''result'' (JStr cross))
                        @ [CHR 0x0A] @ quoted @ [CHR 0x0A, CHR 0x0A]
                        @ bold word_tests @ '': ''
                        @ format_value py_repr (get_default u ''passed'' (JStr []))
                        @ [CHR 0x0A, CHR 0x0A] @ joined"
  let ?fg = "[Delete_message chat (VInt mid), Send_message chat txt_checking No_kb (Some wait_id),
              Answer_callback None False]"
  let ?n = "length ps"
  have rt: "result_text py_repr u = Inr ?txt"
    by (rule result_text_formed [OF message checks])
  have last_turn: "poll py_repr chat wait_id call (Http_200 u # rest)
      = Some ([Call call, Edit_text chat wait_id ?txt Home_kb], None)"
    by (simp add: poll_turn_updated [OF updated rt])
  have sel: "lab_selected chat mid wait_id cb_data t = (?fg, None, Some call)"
    unfolding request by (rule lab_selected_student [OF callback course student])
  have run: "lab_check py_repr chat mid wait_id cb_data t (ps @ Http_200 u # rest) = Some (ev, None)"
    unfolding lab_check_def sel
    by (simp add: poll_pending_prefix [OF pending] last_turn trace del: poll.simps)
  have flt: "\<And>P. filter P (concat (replicate ?n [Call call, Sleep 15]))
      = concat (replicate ?n (filter P [Call call, Sleep 15]))"
    by (induction ps) simp_all
  have len: "\<And>(xs :: event list) k. length (concat (replicate k xs)) = k * length xs"
    by (induct_tac k) simp_all
  have c1: "filter (\<lambda>e. case e of Send_message c x k r \<Rightarrow> True | Answer_message c x k \<Rightarrow> True
                              | _ \<Rightarrow> False) ev
           = [Send_message chat txt_checking No_kb (Some wait_id)]"
    by (simp add: trace flt)
  have c2: "length (filter (\<lambda>e. case e of Edit_text c i x k \<Rightarrow> True | _ \<Rightarrow> False) ev) = 1"
    by (simp add: trace flt)
  have c3: "length (filter (\<lambda>e. case e of Sleep d \<Rightarrow> True | _ \<Rightarrow> False) ev) = ?n"
    by (simp add: trace flt len)
  have c4: "length (filter (\<lambda>e. e = Sleep 15) ev) = ?n"
    by (simp add: trace flt len)
  have c5: "length (filter (\<lambda>e. e = Call call) ev) = ?n + 1"
    by (simp add: trace flt len)
  have c6: "last ev = Edit_text chat wait_id ?txt Home_kb"
    by (simp add: trace)
  show ?thesis using run c1 c2 c3 c4 c5 c6 by blast
qed

text \<open>
  The theorem at the student of chat 7 and the callback \<open>lab_1_lab1\<close>, on a pending
  reply, a dropped connection and an updated reply: the whole trace of the handler and
  its poll.
\<close>

theorem poll_pending_then_updated_witness:
  "lab_check (\<lambda>xs. []) 7 8 9 ''lab_1_lab1''
     \<lparr>tbl_rows =
         [\<lparr>st_id = Some 1, st_chat_id = 7, st_surname = ''Ivanov'', st_name = ''Ivan'',
           st_patronymic = None, st_group_code = ''4231'', st_github = ''ivan-gh'',
           st_courses = [], st_created_at = Some 100, st_updated_at = Some 100\<rparr>],
       tbl_last_id = 1\<rparr>
     [Http_200 [(''status'', JStr ''pending'')], Disconnected,
      Http_200 [(''status'', JStr ''updated''), (''result'', JStr ''ok''),
                (''message'', JStr ''a<b''), (''passed'', JInt 2),
                (''checks'', JList [''c1'', ''c2''])]]
   = Some ([Delete_message 7 (VInt 8), Send_message 7 txt_checking No_kb (Some 9),
            Answer_callback None False,
            Call (Grade_lab ''1'' ''4231'' ''lab1'' ''ivan-gh''), Sleep 15,
            Call (Grade_lab ''1'' ''4231'' ''lab1'' ''ivan-gh''), Sleep 15,
            Call (Grade_lab ''1'' ''4231'' ''lab1'' ''ivan-gh''),
            Edit_text 7 9
              (bold word_result @ '': ok'' @ [CHR 0x0A] @ ''a&lt;b'' @ [CHR 0x0A, CHR 0x0A]
               @ bold word_tests @ '': 2'' @ [CHR 0x0A, CHR 0x0A] @ ''c1'' @ [CHR 0x0A] @ ''c2'')
              Home_kb],
           None)"
proof -
  let ?st = "\<lparr>st_id = Some 1, st_chat_id = 7, st_surname = ''Ivanov'', st_name = ''Ivan'',
           st_patronymic = None, st_group_code = ''4231'', st_github = ''ivan-gh'',
           st_courses = [], st_created_at = Some 100, st_updated_at = Some 100\<rparr>"
  let ?t = "\<lparr>tbl_rows = [?st], tbl_last_id = 1\<rparr>"
  let ?u = "[(''status'', JStr ''updated''), (''result'', JStr ''ok''),
                (''message'', JStr ''a<b''), (''passed'', JInt 2),
                (''checks'', JList [''c1'', ''c2''])]"
  let ?ps = "[Http_200 [(''status'', JStr ''pending'')], Disconnected]"
  have cb: "''lab_1_lab1'' = ''lab_'' @ ''1'' @ ''_'' @ ''lab1''" by simp
  have co: "CHR ''_'' \<notin> set ''1''" by simp
  have s: "get_by_chat 7 ?t = Some ?st" by (simp add: get_by_chat_def)
  have rq: "Grade_lab ''1'' ''4231'' ''lab1'' ''ivan-gh''
              = Grade_lab ''1'' (st_group_code ?st) ''lab1'' (st_github ?st)"
    by simp
  have p: "\<forall>r \<in> set ?ps. \<exists>res. grade_lab r = Some res
              \<and> dict_get res ''status'' = Some (JStr ''pending'')"
    by (simp add: grade_lab_def dict_get_def)
  have u: "dict_get ?u ''status'' = Some (JStr ''updated'')" by (simp add: dict_get_def)
  have m: "quote_html (get_default ?u ''message'' (JStr [])) = Inr ''a&lt;b''"
    by (simp add: get_default_def dict_get_def quote_html_def escape_char_def)
  have c: "join_checks (get_default ?u ''checks'' (JList [])) = Inr (''c1'' @ [CHR 0x0A] @ ''c2'')"
    by (simp add: get_default_def dict_get_def join_checks_def)
  have d: "str_int 2 = ''2''" by code_simp
  from poll_pending_then_updated [OF cb co s rq p u m c refl, of "\<lambda>xs. []" 8 9 "[]"]
  show ?thesis
    by (simp add: get_default_def dict_get_def format_value_def d)
qed

text \<open>
  C4 as stated fails for an \<open>updated\<close> reply that cannot be formatted: with the message
  \<open>5\<close>, \<open>html.escape\<close> raises inside the task, which ends after its one request. The
  placeholder is sent and never edited.
\<close>

theorem poll_updated_malformed_no_edit:
  "lab_check (\<lambda>xs. []) 7 8 9 ''lab_1_lab1''
     \<lparr>tbl_rows =
         [\<lparr>st_id = Some 1, st_chat_id = 7, st_surname = ''Ivanov'', st_name = ''Ivan'',
           st_patronymic = None, st_group_code = ''4231'', st_github = ''ivan-gh'',
           st_courses = [], st_created_at = Some 100, st_updated_at = Some 100\<rparr>],
       tbl_last_id = 1\<rparr>
     [Http_200 [(''status'', JStr ''updated''), (''message'', JInt 5)]]
   = Some ([Delete_message 7 (VInt 8), Send_message 7 txt_checking No_kb (Some 9),
            Answer_callback None False,
            Call (Grade_lab ''1'' ''4231'' ''lab1'' ''ivan-gh'')],
           Some AttributeError)"
  by (simp add: lab_check_def lab_selected_def get_by_chat_def poll_turn_def grade_lab_def
        dict_get_def result_text_def get_default_def join_checks_def quote_html_def bind_def)

section \<open>Properties of the course selection\<close>

lemma split_course: "split_underscore 1 (''course_'' @ cid) = [''course'', cid]"
  by (simp add: split_underscore_0)

lemma show_labs_no_register: "Call (Register_student a b c) \<notin> set (show_labs rm chat mid cid st)"
  by (simp add: show_labs_def Let_def)

text \<open>
  C6. The callback names a course of the remote list, the chat has a student, and the
  student's list already holds a reference with the course's name and semester: the
  handler returns the table as it was (the stored list is the same list), goes straight
  to the group and lab checks, and nowhere calls the remote register endpoint.
\<close>

theorem course_selected_idempotent:
  assumes data: "cb_data = ''course_'' @ cid"
    and course: "find (\<lambda>c. str_int (dto_id c) = cid) (rm_courses rm) = Some course"
    and student: "get_by_chat chat t = Some st"
    and listed: "list_ex (\<lambda>cr. cr_name cr = dto_name course \<and> cr_semester cr = dto_semester course)
                   (st_courses st)"
  shows "course_selected rm now chat mid cb_data t
           = (t, [Call Get_courses] @ show_labs rm chat mid cid st, None)
       \<and> get_by_chat chat (fst (course_selected rm now chat mid cb_data t)) = Some st
       \<and> (\<forall>a b c. Call (Register_student a b c)
              \<notin> set (fst (snd (course_selected rm now chat mid cb_data t))))"
proof -
  have sp: "split_underscore (Suc 0) cb_data = [''course'', cid]"
    unfolding data using split_course [of cid] by simp
  have r: "course_selected rm now chat mid cb_data t
           = (t, [Call Get_courses] @ show_labs rm chat mid cid st, None)"
    using course student listed
    by (simp add: course_selected_def sp Let_def)
  show ?thesis
    by (simp add: r student show_labs_no_register)
qed

lemma find_map_same:
  assumes "\<And>x. P (f x) = P x"
  shows "find P (map f xs) = map_option f (find P xs)"
  using assms by (induction xs) simp_all

lemma save_courses:
  assumes student: "get_by_chat chat t = Some st"
    and idset: "id_set (st_id st)"
    and unique: "\<not> list_ex (\<lambda>r. st_id r \<noteq> st_id st \<and> same_identity r st) (tbl_rows t)"
  shows "\<exists>t'. save now (st\<lparr>st_courses := cs\<rparr>) t = Inr t'
            \<and> get_by_chat chat t' = Some (st\<lparr>st_courses := cs, st_updated_at := Some now\<rparr>)"
proof -
  let ?s = "st\<lparr>st_courses := cs\<rparr>"
  let ?f = "\<lambda>r. if st_id r = st_id ?s
                 then r\<lparr>st_surname := st_surname ?s, st_name := st_name ?s,
                        st_patronymic := st_patronymic ?s,
                        st_group_code := st_group_code ?s,
                        st_github := st_github ?s, st_courses := st_courses ?s,
                        st_updated_at := Some now\<rparr>
                 else r"
  have same: "\<And>r. same_identity r ?s = same_identity r st"
    by (simp add: same_identity_def)
  have sv: "save now ?s t = Inr (t\<lparr>tbl_rows := map ?f (tbl_rows t)\<rparr>)"
    using idset unique by (simp add: save_def sql_update_def same)
  have "find (\<lambda>r. st_chat_id r = chat) (map ?f (tbl_rows t))
          = map_option ?f (find (\<lambda>r. st_chat_id r = chat) (tbl_rows t))"
    by (rule find_map_same) simp
  also have "\<dots> = Some (?f st)"
    using student by (simp add: get_by_chat_def)
  also have "?f st = st\<lparr>st_courses := cs, st_updated_at := Some now\<rparr>"
    by simp
  finally have "get_by_chat chat (t\<lparr>tbl_rows := map ?f (tbl_rows t)\<rparr>)
                  = Some (st\<lparr>st_courses := cs, st_updated_at := Some now\<rparr>)"
    by (simp add: get_by_chat_def)
  with sv show ?thesis by blast
qed

text \<open>
  C10. The course is not yet in the student's list, the remote registration answers
  \<open>registered\<close> or \<open>already_registered\<close>, and the student's row can be updated (it has
  an id, and no other row has its identity). When the student's group is not among the
  course's groups, or there are no labs, the handler ends with the alert after the
  register call and sends no lab list; the table it leaves holds the student with the
  course reference appended.
\<close>

theorem course_kept_when_checks_fail:
  assumes data: "cb_data = ''course_'' @ cid"
    and course: "find (\<lambda>c. str_int (dto_id c) = cid) (rm_courses rm) = Some course"
    and student: "get_by_chat chat t = Some st"
    and new: "\<not> list_ex (\<lambda>cr. cr_name cr = dto_name course \<and> cr_semester cr = dto_semester course)
                   (st_courses st)"
    and reply: "register_student (rm_register rm) = Some result"
    and registered: "registered_status (dict_get result ''status'')"
    and idset: "id_set (st_id st)"
    and unique: "\<not> list_ex (\<lambda>r. st_id r \<noteq> st_id st \<and> same_identity r st) (tbl_rows t)"
    and fails: "st_group_code st \<notin> set (rm_groups rm) \<or> rm_labs rm = []"
  shows "\<exists>t'. course_selected rm now chat mid cb_data t
            = (t',
               [Call Get_courses,
                Call (Register_student cid (st_group_code st)
                        (st_name st, st_surname st, st_patronymic st, st_github st)),
                Call (Get_groups cid)]
               @ (if st_group_code st \<notin> set (rm_groups rm)
                  then [Answer_callback (Some txt_not_for_group) True]
                  else [Call (Get_labs cid (st_group_code st)),
                        Answer_callback (Some txt_no_labs) True]),
               None)
          \<and> get_by_chat chat t'
              = Some (st\<lparr>st_courses := st_courses st @
                            [\<lparr>cr_name = dto_name course, cr_semester = dto_semester course\<rparr>],
                         st_updated_at := Some now\<rparr>)"
proof -
  let ?cs = "st_courses st @ [\<lparr>cr_name = dto_name course, cr_semester = dto_semester course\<rparr>]"
  from save_courses [OF student idset unique, of now ?cs]
  obtain t' where sv: "save now (st\<lparr>st_courses := ?cs\<rparr>) t = Inr t'"
    and got: "get_by_chat chat t' = Some (st\<lparr>st_courses := ?cs, st_updated_at := Some now\<rparr>)"
    by blast
  from registered have ne: "result \<noteq> []"
    by (auto simp: registered_status_def dict_get_def)
  have sp: "split_underscore (Suc 0) cb_data = [''course'', cid]"
    unfolding data using split_course [of cid] by simp
  have "course_selected rm now chat mid cb_data t
            = (t',
               [Call Get_courses,
                Call (Register_student cid (st_group_code st)
                        (st_name st, st_surname st, st_patronymic st, st_github st)),
                Call (Get_groups cid)]
               @ (if st_group_code st \<notin> set (rm_groups rm)
                  then [Answer_callback (Some txt_not_for_group) True]
                  else [Call (Get_labs cid (st_group_code st)),
                        Answer_callback (Some txt_no_labs) True]),
               None)"
    using course student new reply registered ne sv fails
    by (auto simp: course_selected_def sp Let_def show_labs_def)
  with got show ?thesis by blast
qed

text \<open>
  The theorem at the student of chat 7, who already has course 12: the table is
  returned as it is, and the trace has no register call.
\<close>

theorem course_selected_idempotent_witness:
  "course_selected
     \<lparr>rm_courses = [\<lparr>dto_id = 12, dto_name = ''Algo'', dto_semester = ''Fall 2026'',
                      dto_logo = None, dto_email = None\<rparr>],
      rm_register = Failed, rm_groups = [''4231''], rm_labs = [''lab1''], rm_info = None\<rparr>
     500 7 8 ''course_12''
     \<lparr>tbl_rows =
        [\<lparr>st_id = Some 1, st_chat_id = 7, st_surname = ''Ivanov'', st_name = ''Ivan'',
          st_patronymic = None, st_group_code = ''4231'', st_github = ''ivan-gh'',
          st_courses = [\<lparr>cr_name = ''Algo'', cr_semester = ''Fall 2026''\<rparr>],
          st_created_at = Some 100, st_updated_at = Some 100\<rparr>],
      tbl_last_id = 1\<rparr>
   = (\<lparr>tbl_rows =
        [\<lparr>st_id = Some 1, st_chat_id = 7, st_surname = ''Ivanov'', st_name = ''Ivan'',
          st_patronymic = None, st_group_code = ''4231'', st_github = ''ivan-gh'',
          st_courses = [\<lparr>cr_name = ''Algo'', cr_semester = ''Fall 2026''\<rparr>],
          st_created_at = Some 100, st_updated_at = Some 100\<rparr>],
      tbl_last_id = 1\<rparr>,
      [Call Get_courses, Call (Get_groups ''12''), Call (Get_labs ''12'' ''4231''),
       Call (Get_course_info ''12''), Delete_message 7 (VInt 8),
       Answer_message 7 (labs_line ''4231'') (Labs_kb [''lab1''] ''12''),
       Answer_callback None False],
      None)"
proof -
  let ?c = "\<lparr>dto_id = 12, dto_name = ''Algo'', dto_semester = ''Fall 2026'',
                      dto_logo = None, dto_email = None\<rparr>"
  let ?rm = "\<lparr>rm_courses = [?c],
      rm_register = Failed, rm_groups = [''4231''], rm_labs = [''lab1''], rm_info = None\<rparr>"
  let ?st = "\<lparr>st_id = Some 1, st_chat_id = 7, st_surname = ''Ivanov'', st_name = ''Ivan'',
          st_patronymic = None, st_group_code = ''4231'', st_github = ''ivan-gh'',
          st_courses = [\<lparr>cr_name = ''Algo'', cr_semester = ''Fall 2026''\<rparr>],
          st_created_at = Some 100, st_updated_at = Some 100\<rparr>"
  let ?t = "\<lparr>tbl_rows = [?st], tbl_last_id = 1\<rparr>"
  have d: "str_int 12 = ''12''" by code_simp
  have c: "find (\<lambda>c. str_int (dto_id c) = ''12'') (rm_courses ?rm) = Some ?c"
    by (simp add: d)
  have s: "get_by_chat 7 ?t = Some ?st" by (simp add: get_by_chat_def)
  have l: "list_ex (\<lambda>cr. cr_name cr = dto_name ?c \<and> cr_semester cr = dto_semester ?c)
             (st_courses ?st)"
    by simp
  from course_selected_idempotent [OF _ c s l, of "''course_12''" 500 8]
  show ?thesis by (simp add: show_labs_def course_text_def)
qed

text \<open>
  The theorem at the student of chat 7 in group 4231 and a course offered to group 4232
  only: the alert ends the handler, and the row keeps the new course reference.
\<close>

theorem course_kept_when_checks_fail_witness:
  "course_selected
     \<lparr>rm_courses = [\<lparr>dto_id = 12, dto_name = ''Algo'', dto_semester = ''Fall 2026'',
                      dto_logo = None, dto_email = None\<rparr>],
      rm_register = Http_200 [(''status'', JStr ''registered'')],
      rm_groups = [''4232''], rm_labs = [''lab1''], rm_info = None\<rparr>
     500 7 8 ''course_12''
     \<lparr>tbl_rows =
        [\<lparr>st_id = Some 1, st_chat_id = 7, st_surname = ''Ivanov'', st_name = ''Ivan'',
          st_patronymic = None, st_group_code = ''4231'', st_github = ''ivan-gh'',
          st_courses = [], st_created_at = Some 100, st_updated_at = Some 100\<rparr>],
      tbl_last_id = 1\<rparr>
   = (\<lparr>tbl_rows =
        [\<lparr>st_id = Some 1, st_chat_id = 7, st_surname = ''Ivanov'', st_name = ''Ivan'',
          st_patronymic = None, st_group_code = ''4231'', st_github = ''ivan-gh'',
          st_courses = [\<lparr>cr_name = ''Algo'', cr_semester = ''Fall 2026''\<rparr>],
          st_created_at = Some 100, st_updated_at = Some 500\<rparr>],
      tbl_last_id = 1\<rparr>,
      [Call Get_courses,
       Call (Register_student ''12'' ''4231'' (''Ivan'', ''Ivanov'', None, ''ivan-gh'')),
       Call (Get_groups ''12''), Answer_callback (Some txt_not_for_group) True],
      None)"
proof -
  let ?c = "\<lparr>dto_id = 12, dto_name = ''Algo'', dto_semester = ''Fall 2026'',
                      dto_logo = None, dto_email = None\<rparr>"
  let ?rm = "\<lparr>rm_courses = [?c],
      rm_register = Http_200 [(''status'', JStr ''registered'')],
      rm_groups = [''4232''], rm_labs = [''lab1''], rm_info = None\<rparr>"
  let ?st = "\<lparr>st_id = Some 1, st_chat_id = 7, st_surname = ''Ivanov'', st_name = ''Ivan'',
          st_patronymic = None, st_group_code = ''4231'', st_github = ''ivan-gh'',
          st_courses = [], st_created_at = Some 100, st_updated_at = Some 100\<rparr>"
  let ?t = "\<lparr>tbl_rows = [?st], tbl_last_id = 1\<rparr>"
  have d: "str_int 12 = ''12''" by code_simp
  have c: "find (\<lambda>c. str_int (dto_id c) = ''12'') (rm_courses ?rm) = Some ?c"
    by (simp add: d)
  have s: "get_by_chat 7 ?t = Some ?st" by (simp add: get_by_chat_def)
  have n: "\<not> list_ex (\<lambda>cr. cr_name cr = dto_name ?c \<and> cr_semester cr = dto_semester ?c)
             (st_courses ?st)"
    by simp
  have r: "register_student (rm_register ?rm) = Some [(''status'', JStr ''registered'')]"
    by (simp add: register_student_def)
  have g: "registered_status (dict_get [(''status'', JStr ''registered'')] ''status'')"
    by (simp add: registered_status_def dict_get_def)
  have i: "id_set (st_id ?st)" by (simp add: id_set_def)
  have u: "\<not> list_ex (\<lambda>r. st_id r \<noteq> st_id ?st \<and> same_identity r ?st) (tbl_rows ?t)"
    by simp
  have f: "st_group_code ?st \<notin> set (rm_groups ?rm) \<or> rm_labs ?rm = []" by simp
  from course_kept_when_checks_fail [OF _ c s n r g i u f, of "''course_12''" 500 8]
  obtain t' where run: "course_selected ?rm 500 7 8 ''course_12'' ?t
       = (t', [Call Get_courses,
               Call (Register_student ''12'' ''4231'' (''Ivan'', ''Ivanov'', None, ''ivan-gh'')),
               Call (Get_groups ''12''), Answer_callback (Some txt_not_for_group) True], None)"
    by auto
  have "fst (course_selected ?rm 500 7 8 ''course_12'' ?t)
          = \<lparr>tbl_rows =
        [\<lparr>st_id = Some 1, st_chat_id = 7, st_surname = ''Ivanov'', st_name = ''Ivan'',
          st_patronymic = None, st_group_code = ''4231'', st_github = ''ivan-gh'',
          st_courses = [\<lparr>cr_name = ''Algo'', cr_semester = ''Fall 2026''\<rparr>],
          st_created_at = Some 100, st_updated_at = Some 500\<rparr>],
      tbl_last_id = 1\<rparr>"
    by (simp add: course_selected_def d get_by_chat_def register_student_def
          registered_status_def dict_get_def save_def id_set_def sql_update_def
          same_identity_def Let_def)
  with run show ?thesis by simp
qed

end
